theory Spec2Isabelle
  imports Main "HOL-Library.AList" "HOL-Library.Sublist"
begin

section \<open>Graceful database migrations: \<^verbatim>\<open>pyramid_heroku/migrate.py\<close>\<close>

text \<open>
  The module defines one class, \<^verbatim>\<open>Heroku\<close>, whose method \<^verbatim>\<open>migrate\<close> talks to
  three collaborators: the platform API (through a \<^verbatim>\<open>requests.Session\<close>), the
  \<^verbatim>\<open>alembic\<close> command (through \<^verbatim>\<open>subprocess.check_output\<close>) and the clock
  (\<^verbatim>\<open>time.sleep\<close>). The embedding makes all of them explicit: the collaborators
  are oracles of a \<open>world\<close>, every call made to them is appended to a trace, and every
  Python exception is a value of type \<open>error\<close>. A method is a function from the
  object's state to a result and the state it leaves behind; the state is returned
  also when the method raises, since the calls made before the exception stay made.
\<close>

subsection \<open>Data\<close>

text \<open>
  What \<^verbatim>\<open>res.json()\<close> can deliver: a JSON array of \<^verbatim>\<open>{type, quantity}\<close> objects (what
  the formation endpoints answer) or a JSON object (what the app endpoint answers, and
  what the platform sends with an error).
\<close>

datatype json = Array "(string \<times> int) list" | Object "(string \<times> string) list"

text \<open>The \<^verbatim>\<open>json=\<close> argument of a request: \<^verbatim>\<open>dict(updates=...)\<close> or \<^verbatim>\<open>dict(maintenance=...)\<close>.\<close>

datatype payload = Updates "(string \<times> int) list" | Maintenance bool

datatype http_method = GET | PATCH

record request =
  http_method :: http_method
  url :: string
  req_headers :: "(string \<times> string) list"
  req_json :: "payload option"

text \<open>A response: its status code, and its body when the body is valid JSON.\<close>

record response =
  status_code :: int
  content :: "json option"

text \<open>The calls the program makes to the outside, in the order it makes them.\<close>

datatype event = Http request | Exec string | Sleep nat

text \<open>What the program prints, line by line (the rendering of values is left out).\<close>

datatype out = Line string | Repr json | Type_quantity string int

datatype error =
    HTTPError int
  | JSONDecodeError
  | TypeError
  | CalledProcessError int string

text \<open>
  The outside world: the process environment, the platform (its answer to a request
  may depend on everything that happened before), the external command (its exit
  status and its standard output, again depending on the history), and what the
  \<^verbatim>\<open>requests\<close> library brings with it: the headers a new \<^verbatim>\<open>Session\<close> starts with
  (\<^verbatim>\<open>requests.utils.default_headers()\<close>) and the credentials it finds in the user's
  netrc file for a URL (\<^verbatim>\<open>requests.utils.get_netrc_auth\<close>), already encoded as HTTP
  Basic authentication encodes \<^verbatim>\<open>login:password\<close>.
\<close>

record world =
  environ :: "string \<rightharpoonup> string"
  reply :: "event list \<Rightarrow> request \<Rightarrow> response"
  exec :: "event list \<Rightarrow> string \<Rightarrow> int \<times> string"
  default_headers :: "(string \<times> string) list"
  netrc :: "string \<rightharpoonup> string"

text \<open>
  The fields of a \<^verbatim>\<open>Heroku\<close> object (\<open>formation_cache\<close> is \<^verbatim>\<open>self._formation\<close>,
  \<open>session_headers\<close> the headers set on \<^verbatim>\<open>self.session\<close>), together with the trace of
  calls made so far and the lines printed so far. A dictionary is an association list
  in insertion order, as Python keeps it.
\<close>

record heroku =
  formation_cache :: "(string \<times> int) list option"
  app_name :: string
  ini_file :: string
  app_section :: string
  session_headers :: "(string \<times> string) list"
  trace :: "event list"
  stdout :: "out list"

type_synonym 'a io = "heroku \<Rightarrow> (error + 'a) \<times> heroku"

subsection \<open>Sequencing\<close>

text \<open>Statement sequencing: an exception skips everything that follows.\<close>

definition and_then :: "'a io \<Rightarrow> ('a \<Rightarrow> 'b io) \<Rightarrow> 'b io" where
  "and_then m f s = (case m s of (Inl e, s') \<Rightarrow> (Inl e, s') | (Inr x, s') \<Rightarrow> f x s')"

definition return :: "'a \<Rightarrow> 'a io" where
  "return x s = (Inr x, s)"

definition lift :: "error + 'a \<Rightarrow> 'a io" where
  "lift r s = (r, s)"

definition print :: "out \<Rightarrow> unit io" where
  "print l s = (Inr (), s\<lparr>stdout := stdout s @ [l]\<rparr>)"

definition sleep :: "nat \<Rightarrow> unit io" where
  "sleep n s = (Inr (), s\<lparr>trace := trace s @ [Sleep n]\<rparr>)"

text \<open>\<^verbatim>\<open>for x in xs: print(f x)\<close>\<close>

definition print_each :: "('a \<Rightarrow> out) \<Rightarrow> 'a list \<Rightarrow> unit io" where
  "print_each f xs s = (Inr (), s\<lparr>stdout := stdout s @ map f xs\<rparr>)"

subsection \<open>Python and library primitives\<close>

text \<open>\<^verbatim>\<open>sub in s\<close> on strings: \<open>sub\<close> occurs in \<open>s\<close> as a contiguous piece.\<close>

fun py_in :: "'a list \<Rightarrow> 'a list \<Rightarrow> bool" where
  "py_in sub [] = (sub = [])"
| "py_in sub (c # cs) = (prefix sub (c # cs) \<or> py_in sub cs)"

text \<open>\<^verbatim>\<open>f'{v}'\<close> for a value that is a string or \<^verbatim>\<open>None\<close>.\<close>

definition py_format :: "string option \<Rightarrow> string" where
  "py_format v = (case v of None \<Rightarrow> ''None'' | Some s \<Rightarrow> s)"

text \<open>
  \<^verbatim>\<open>requests.structures.CaseInsensitiveDict\<close>, the type of the headers of a session and
  of a request: an association list in insertion order whose keys are compared after
  \<^verbatim>\<open>str.lower()\<close> (on the ASCII letters, which is all a header name has). Setting a
  key that is present replaces the entry where it stands, with the new spelling of the
  key; setting a new key appends.
\<close>

definition lower_char :: "char \<Rightarrow> char" where
  "lower_char c =
     (case map_of (zip ''ABCDEFGHIJKLMNOPQRSTUVWXYZ'' ''abcdefghijklmnopqrstuvwxyz'') c of
        None \<Rightarrow> c | Some d \<Rightarrow> d)"

definition lower :: "string \<Rightarrow> string" where
  "lower s = map lower_char s"

fun ci_update :: "string \<Rightarrow> 'v \<Rightarrow> (string \<times> 'v) list \<Rightarrow> (string \<times> 'v) list" where
  "ci_update k v [] = [(k, v)]"
| "ci_update k v (p # ps) =
     (if lower (fst p) = lower k then (k, v) # ps else p # ci_update k v ps)"

fun ci_lookup :: "(string \<times> 'v) list \<Rightarrow> string \<Rightarrow> 'v option" where
  "ci_lookup [] k = None"
| "ci_lookup (p # ps) k = (if lower (fst p) = lower k then Some (snd p) else ci_lookup ps k)"

text \<open>
  \<^verbatim>\<open>{x['type']: x['quantity'] for x in xs}\<close>: a later entry for a type already seen
  replaces its quantity and keeps its place.
\<close>

definition dict_of :: "(string \<times> int) list \<Rightarrow> (string \<times> int) list" where
  "dict_of xs = fold (\<lambda>(t, q) d. AList.update t q d) xs []"

text \<open>\<^verbatim>\<open>res.json()\<close> raises when the body is not JSON.\<close>

definition json :: "response \<Rightarrow> error + json" where
  "json res = (case content res of None \<Rightarrow> Inl JSONDecodeError | Some j \<Rightarrow> Inr j)"

text \<open>
  \<^verbatim>\<open>for x in res.json(): ... x['type'] ... x['quantity']\<close>: iterating over a JSON object
  yields its keys, which are strings, and subscripting a string with \<^verbatim>\<open>'type'\<close> raises
  \<^verbatim>\<open>TypeError\<close>; an empty object yields nothing.
\<close>

definition entries :: "json \<Rightarrow> error + (string \<times> int) list" where
  "entries j = (case j of Array xs \<Rightarrow> Inr xs
                | Object kvs \<Rightarrow> (if kvs = [] then Inr [] else Inl TypeError))"

text \<open>
  \<^verbatim>\<open>requests.Response.raise_for_status\<close>: raises \<^verbatim>\<open>HTTPError\<close> for a client error
  (400 to 499) or a server error (500 to 599) and returns otherwise.
\<close>

definition raise_for_status :: "response \<Rightarrow> error + unit" where
  "raise_for_status res =
     (if 400 \<le> status_code res \<and> status_code res < 600
      then Inl (HTTPError (status_code res)) else Inr ())"

text \<open>
  \<^verbatim>\<open>Session.prepare_request\<close>, for a session built with no \<^verbatim>\<open>auth\<close> and the default
  \<^verbatim>\<open>trust_env\<close>, and a call that passes no headers of its own: the request starts
  from the headers of the session; when netrc credentials are found for the URL, they
  are applied as HTTP Basic authentication, which sets \<^verbatim>\<open>Authorization\<close>. The
  headers the library derives from the body and the cookie jar (\<^verbatim>\<open>Content-Length\<close>,
  \<^verbatim>\<open>Cookie\<close>) are not listed in \<open>req_headers\<close>.
\<close>

definition prepare_request ::
  "world \<Rightarrow> heroku \<Rightarrow> http_method \<Rightarrow> string \<Rightarrow> payload option \<Rightarrow> request" where
  "prepare_request w s m u p =
     \<lparr>http_method = m, url = u,
      req_headers =
        (case netrc w u of
           None \<Rightarrow> session_headers s
         | Some credentials \<Rightarrow>
             ci_update ''Authorization'' (''Basic '' @ credentials) (session_headers s)),
      req_json = p\<rparr>"

text \<open>
  \<^verbatim>\<open>self.session.get\<close> and \<^verbatim>\<open>self.session.patch\<close>: one call to the platform. The
  trace records the request as prepared; redirects the library follows are part of the
  platform's answer.
\<close>

definition send :: "world \<Rightarrow> http_method \<Rightarrow> string \<Rightarrow> payload option \<Rightarrow> response io" where
  "send w m u p s =
     (let rq = prepare_request w s m u p
      in (Inr (reply w (trace s) rq), s\<lparr>trace := trace s @ [Http rq]\<rparr>))"

subsection \<open>The class \<^verbatim>\<open>Heroku\<close>\<close>

definition api_endpoint :: string where
  "api_endpoint = ''https://api.heroku.com''"

definition auth_key :: "world \<Rightarrow> string option" where
  "auth_key w = environ w ''MIGRATE_API_SECRET_HEROKU''"

text \<open>
  \<^verbatim>\<open>__init__\<close>: \<^verbatim>\<open>Session()\<close> starts with the library's default headers, and
  \<^verbatim>\<open>self.session.headers.update(headers)\<close> sets the three headers in the order of the
  dictionary.
\<close>

definition Heroku_init :: "world \<Rightarrow> string \<Rightarrow> string \<Rightarrow> string \<Rightarrow> heroku" where
  "Heroku_init w name ini section =
     \<lparr>formation_cache = None,
      app_name = name,
      ini_file = ini,
      app_section = section,
      session_headers =
        ci_update ''Content-Type'' ''application/json''
          (ci_update ''Accept'' ''application/vnd.heroku+json; version=3''
            (ci_update ''Authorization'' (''Bearer '' @ py_format (auth_key w))
              (default_headers w))),
      trace = [],
      stdout = []\<rparr>"

definition parse_response :: "response \<Rightarrow> bool io" where
  "parse_response res =
     and_then
       (if status_code res \<noteq> 200
        then and_then (lift (json res)) (\<lambda>j. print (Repr j))
        else return ())
       (\<lambda>_. and_then (lift (raise_for_status res)) (\<lambda>_. return True))"

definition formation_url :: "heroku \<Rightarrow> string" where
  "formation_url s = api_endpoint @ ''/apps/'' @ app_name s @ ''/formation''"

definition app_url :: "heroku \<Rightarrow> string" where
  "app_url s = api_endpoint @ ''/apps/'' @ app_name s"

text \<open>
  The property \<^verbatim>\<open>formation\<close>. The test \<^verbatim>\<open>not self._formation\<close> is true for \<^verbatim>\<open>None\<close> and
  for the empty dictionary.
\<close>

definition formation :: "world \<Rightarrow> (string \<times> int) list io" where
  "formation w s =
     (if formation_cache s = None \<or> formation_cache s = Some []
      then and_then (send w GET (formation_url s) None) (\<lambda>res.
           and_then (parse_response res) (\<lambda>_.
           and_then (lift (json res)) (\<lambda>j.
           and_then (lift (entries j)) (\<lambda>xs s'.
             (Inr (dict_of xs), s'\<lparr>formation_cache := Some (dict_of xs)\<rparr>))))) s
      else (Inr (the (formation_cache s)), s))"

definition scale_down :: "world \<Rightarrow> unit io" where
  "scale_down w =
     and_then (formation w) (\<lambda>f.
     and_then (\<lambda>s. send w PATCH (formation_url s) (Some (Updates (map (\<lambda>t. (t, 0)) (map fst f)))) s) (\<lambda>res.
     and_then (parse_response res) (\<lambda>_.
     and_then (print (Line ''Scaled down to:'')) (\<lambda>_.
     and_then (lift (json res)) (\<lambda>j.
     and_then (lift (entries j)) (\<lambda>xs.
       print_each (\<lambda>(t, q). Type_quantity t q) xs))))))"

definition scale_up :: "world \<Rightarrow> unit io" where
  "scale_up w =
     and_then (formation w) (\<lambda>f.
     and_then (\<lambda>s. send w PATCH (formation_url s) (Some (Updates f)) s) (\<lambda>res.
     and_then (parse_response res) (\<lambda>_.
     and_then (print (Line ''Scaled up to:'')) (\<lambda>_.
     and_then (lift (json res)) (\<lambda>j.
     and_then (lift (entries j)) (\<lambda>xs.
       print_each (\<lambda>(t, q). Type_quantity t q) xs))))))"

text \<open>
  \<^verbatim>\<open>subprocess.check_output(shlex.split(cmd)).decode()\<close>: runs the command, raises
  \<^verbatim>\<open>CalledProcessError\<close> when it exits with a status other than 0, returns its output
  otherwise.
\<close>

definition shell :: "world \<Rightarrow> string \<Rightarrow> string io" where
  "shell w cmd s =
     (let (rc, output) = exec w (trace s) cmd;
          s' = s\<lparr>trace := trace s @ [Exec cmd]\<rparr>
      in if rc \<noteq> 0 then (Inl (CalledProcessError rc cmd), s') else (Inr output, s'))"

definition current_cmd :: "heroku \<Rightarrow> string" where
  "current_cmd s = ''alembic -c '' @ ini_file s @ '' -n '' @ app_section s @ '' current''"

definition upgrade_cmd :: "heroku \<Rightarrow> string" where
  "upgrade_cmd s = ''alembic -c '' @ ini_file s @ '' -n '' @ app_section s @ '' upgrade head''"

definition needs_migrate :: "world \<Rightarrow> bool io" where
  "needs_migrate w =
     and_then (\<lambda>s. shell w (current_cmd s) s) (\<lambda>cmd.
     and_then (print (Line cmd)) (\<lambda>_.
       return (\<not> py_in ''head'' cmd)))"

definition alembic :: "world \<Rightarrow> string io" where
  "alembic w s = shell w (upgrade_cmd s) s"

definition set_maintenance :: "world \<Rightarrow> bool \<Rightarrow> unit io" where
  "set_maintenance w state =
     and_then (\<lambda>s. send w PATCH (app_url s) (Some (Maintenance state)) s) (\<lambda>res.
     and_then (parse_response res) (\<lambda>ok.
       if ok then print (Line (''Maintenance '' @ (if state then ''enabled'' else ''disabled'')))
       else return ()))"

definition migrate :: "world \<Rightarrow> unit io" where
  "migrate w =
     and_then (\<lambda>s. print (Line (app_name s)) s) (\<lambda>_.
     and_then (\<lambda>s. print (Line (app_section s)) s) (\<lambda>_.
     and_then (\<lambda>s. print (Line (ini_file s)) s) (\<lambda>_.
     and_then (needs_migrate w) (\<lambda>needed.
       if needed then
         and_then (set_maintenance w True) (\<lambda>_.
         and_then (scale_down w) (\<lambda>_.
         and_then (sleep 30) (\<lambda>_.
         and_then (alembic w) (\<lambda>output.
         and_then (print (Line output)) (\<lambda>_.
         and_then (scale_up w) (\<lambda>_.
         and_then (sleep 30) (\<lambda>_.
           set_maintenance w False)))))))
       else print (Line ''Database migration is not needed'')))))"

text \<open>
  \<^verbatim>\<open>main\<close> after argument parsing: build the object, run \<^verbatim>\<open>migrate\<close>; the exit status
  of the process is 0 when it returns and 1 when an exception escapes.
\<close>

definition main :: "world \<Rightarrow> string \<Rightarrow> string \<Rightarrow> string \<Rightarrow> int \<times> heroku" where
  "main w name ini section =
     (case migrate w (Heroku_init w name ini section) of
        (Inl e, s) \<Rightarrow> (1, s)
      | (Inr u, s) \<Rightarrow> (0, s))"

subsection \<open>Vocabulary of the statements\<close>

text \<open>The three requests the class can send, as \<open>send\<close> prepares them.\<close>

definition get_formation_request :: "world \<Rightarrow> heroku \<Rightarrow> request" where
  "get_formation_request w s = prepare_request w s GET (formation_url s) None"

definition patch_formation_request :: "world \<Rightarrow> heroku \<Rightarrow> (string \<times> int) list \<Rightarrow> request" where
  "patch_formation_request w s ups =
     prepare_request w s PATCH (formation_url s) (Some (Updates ups))"

definition patch_app_request :: "world \<Rightarrow> heroku \<Rightarrow> bool \<Rightarrow> request" where
  "patch_app_request w s state =
     prepare_request w s PATCH (app_url s) (Some (Maintenance state))"

text \<open>The updates of a scale-down: every type of the formation, with quantity 0.\<close>

definition zeros :: "(string \<times> int) list \<Rightarrow> (string \<times> int) list" where
  "zeros f = map (\<lambda>t. (t, 0)) (map fst f)"

definition maintenance_line :: "bool \<Rightarrow> out" where
  "maintenance_line state =
     Line (''Maintenance '' @ (if state then ''enabled'' else ''disabled''))"

definition quantity_lines :: "(string \<times> int) list \<Rightarrow> out list" where
  "quantity_lines xs = map (\<lambda>(t, q). Type_quantity t q) xs"

text \<open>The state after the three opening prints of \<^verbatim>\<open>migrate\<close>.\<close>

definition banner :: "heroku \<Rightarrow> heroku" where
  "banner s =
     s\<lparr>stdout := stdout s @ [Line (app_name s), Line (app_section s), Line (ini_file s)]\<rparr>"

text \<open>The requests of a trace, in order.\<close>

definition api_calls :: "event list \<Rightarrow> request list" where
  "api_calls tr = concat (map (\<lambda>e. case e of Http rq \<Rightarrow> [rq] | _ \<Rightarrow> []) tr)"

text \<open>The fields that no method assigns after construction.\<close>

definition unchanged :: "heroku \<Rightarrow> heroku \<Rightarrow> bool" where
  "unchanged s s' \<longleftrightarrow>
     app_name s' = app_name s \<and> ini_file s' = ini_file s \<and>
     app_section s' = app_section s \<and> session_headers s' = session_headers s"

text \<open>A call that scales: a \<^verbatim>\<open>PATCH\<close> with an \<^verbatim>\<open>updates\<close> body.\<close>

definition patches_formation :: "event \<Rightarrow> bool" where
  "patches_formation e =
     (case e of
        Http rq \<Rightarrow> http_method rq = PATCH \<and>
          (case req_json rq of Some (Updates ups) \<Rightarrow> True | _ \<Rightarrow> False)
      | _ \<Rightarrow> False)"

text \<open>A request carries the credential of an unset environment variable.\<close>

definition bearer_none :: "request \<Rightarrow> bool" where
  "bearer_none rq \<longleftrightarrow> ci_lookup (req_headers rq) ''Authorization'' = Some ''Bearer None''"

definition sends_bearer_none :: "heroku \<Rightarrow> bool" where
  "sends_bearer_none s \<longleftrightarrow>
     ci_lookup (session_headers s) ''Authorization'' = Some ''Bearer None'' \<and>
     list_all bearer_none (api_calls (trace s))"

text \<open>The library finds no netrc credentials, whatever the URL.\<close>

definition no_netrc :: "world \<Rightarrow> bool" where
  "no_netrc w \<longleftrightarrow> (\<forall>u. netrc w u = None)"

text \<open>
  The exception in which a response with a client or server error status ends: the
  body is printed first, which raises when it is not JSON.
\<close>

definition failure_of :: "response \<Rightarrow> error" where
  "failure_of res =
     (case content res of None \<Rightarrow> JSONDecodeError | Some j \<Rightarrow> HTTPError (status_code res))"

subsection \<open>Concrete worlds\<close>

text \<open>The default headers of \<^verbatim>\<open>requests\<close> 2.32.3.\<close>

definition requests_defaults :: "(string \<times> string) list" where
  "requests_defaults =
     [(''User-Agent'', ''python-requests/2.32.3''),
      (''Accept-Encoding'', ''gzip, deflate''),
      (''Accept'', ''*/*''),
      (''Connection'', ''keep-alive'')]"

text \<open>
  A platform that answers every request with 200: on the formation endpoint of
  \<^verbatim>\<open>my-app\<close>, the requested quantities to a scale request and the formation
  \<^verbatim>\<open>{web: 2, worker: 1}\<close> to a read; elsewhere, the app.
\<close>

definition platform_ok :: "event list \<Rightarrow> request \<Rightarrow> response" where
  "platform_ok tr rq =
     (if url rq = ''https://api.heroku.com/apps/my-app/formation'' then
        (case req_json rq of
           Some (Updates ups) \<Rightarrow> \<lparr>status_code = 200, content = Some (Array ups)\<rparr>
         | _ \<Rightarrow> \<lparr>status_code = 200, content = Some (Array [(''web'', 2), (''worker'', 1)])\<rparr>)
      else \<lparr>status_code = 200, content = Some (Object [(''name'', ''my-app'')])\<rparr>)"

text \<open>The schema is behind: the first command (the status query) prints a bare revision.\<close>

definition tool_pending :: "event list \<Rightarrow> string \<Rightarrow> int \<times> string" where
  "tool_pending tr cmd = (0, if tr = [] then ''a1b2c3d4e5f6'' else ''Running upgrade'')"

definition pending_world :: world where
  "pending_world = \<lparr>environ = Map.empty, reply = platform_ok, exec = tool_pending,
      default_headers = requests_defaults, netrc = Map.empty\<rparr>"

text \<open>The schema is at the latest revision.\<close>

definition head_world :: world where
  "head_world =
     \<lparr>environ = Map.empty, reply = platform_ok,
      exec = (\<lambda>tr cmd. (0, ''a1b2c3d4e5f6 (head)'')),
      default_headers = requests_defaults, netrc = Map.empty\<rparr>"

text \<open>The tool exits with status 1 whatever it is asked.\<close>

definition broken_tool_world :: world where
  "broken_tool_world =
     \<lparr>environ = Map.empty, reply = platform_ok, exec = (\<lambda>tr cmd. (1, [])),
      default_headers = requests_defaults, netrc = Map.empty\<rparr>"

text \<open>The status query works and reports a pending migration; the upgrade exits with 2.\<close>

definition upgrade_fails_world :: world where
  "upgrade_fails_world =
     \<lparr>environ = Map.empty, reply = platform_ok,
      exec = (\<lambda>tr cmd. if tr = [] then (0, ''a1b2c3d4e5f6'') else (2, [])),
      default_headers = requests_defaults, netrc = Map.empty\<rparr>"

definition internal_error :: response where
  "internal_error =
     \<lparr>status_code = 500, content = Some (Object [(''id'', ''internal_error'')])\<rparr>"

text \<open>The platform answers its \<open>k\<close>-th request (counting from 0) with a 500.\<close>

definition flaky_world :: "nat \<Rightarrow> world" where
  "flaky_world k =
     \<lparr>environ = Map.empty,
      reply = (\<lambda>tr rq. if length (api_calls tr) = k
                 then internal_error
                 else platform_ok tr rq),
      exec = tool_pending,
      default_headers = requests_defaults, netrc = Map.empty\<rparr>"

text \<open>The platform answers every request with 201 and an empty object.\<close>

definition created_world :: world where
  "created_world =
     \<lparr>environ = Map.empty,
      reply = (\<lambda>tr rq. \<lparr>status_code = 201, content = Some (Object [])\<rparr>),
      exec = tool_pending,
      default_headers = requests_defaults, netrc = Map.empty\<rparr>"

text \<open>An app with no process type.\<close>

definition empty_world :: world where
  "empty_world =
     \<lparr>environ = Map.empty,
      reply = (\<lambda>tr rq. case req_json rq of
                 None \<Rightarrow> \<lparr>status_code = 200, content = Some (Array [])\<rparr>
               | Some p \<Rightarrow> platform_ok tr rq),
      exec = tool_pending,
      default_headers = requests_defaults, netrc = Map.empty\<rparr>"

text \<open>
  An app with no process type at first, to which a \<^verbatim>\<open>web\<close> process is added while the
  migration runs: a formation read answers it once the first delay has passed.
\<close>

definition growing_world :: world where
  "growing_world =
     \<lparr>environ = Map.empty,
      reply = (\<lambda>tr rq. case req_json rq of
                 None \<Rightarrow> \<lparr>status_code = 200,
                          content = Some (Array (if Sleep 30 \<in> set tr then [(''web'', 1)] else []))\<rparr>
               | Some p \<Rightarrow> platform_ok tr rq),
      exec = tool_pending,
      default_headers = requests_defaults, netrc = Map.empty\<rparr>"

text \<open>
  The token is not set and the netrc file of the user has an entry for the platform,
  as the platform's command-line client writes one; the credentials are
  \<^verbatim>\<open>dev@example.com:s3cret\<close>.
\<close>

definition netrc_world :: world where
  "netrc_world =
     \<lparr>environ = Map.empty, reply = platform_ok, exec = tool_pending,
      default_headers = requests_defaults,
      netrc = (\<lambda>u. Some ''ZGV2QGV4YW1wbGUuY29tOnMzY3JldA=='')\<rparr>"

text \<open>\<^verbatim>\<open>Heroku('my-app', 'etc/production.ini', 'app:main')\<close>\<close>

definition client :: "world \<Rightarrow> heroku" where
  "client w = Heroku_init w ''my-app'' ''etc/production.ini'' ''app:main''"

text \<open>The same object written out, when the token is not set.\<close>

definition plain_client :: heroku where
  "plain_client =
     \<lparr>formation_cache = None,
      app_name = ''my-app'',
      ini_file = ''etc/production.ini'',
      app_section = ''app:main'',
      session_headers =
        [(''User-Agent'', ''python-requests/2.32.3''),
         (''Accept-Encoding'', ''gzip, deflate''),
         (''Accept'', ''application/vnd.heroku+json; version=3''),
         (''Connection'', ''keep-alive''),
         (''Authorization'', ''Bearer None''),
         (''Content-Type'', ''application/json'')],
      trace = [],
      stdout = []\<rparr>"

section \<open>Properties\<close>

subsection \<open>Primitives\<close>

lemma py_in_iff: "py_in sub s \<longleftrightarrow> (\<exists>pre post. s = pre @ sub @ post)"
proof (induction s)
  case Nil
  then show ?case by auto
next
  case (Cons c cs)
  show ?case
  proof
    assume "py_in sub (c # cs)"
    then consider "prefix sub (c # cs)" | "py_in sub cs" by auto
    then show "\<exists>pre post. c # cs = pre @ sub @ post"
    proof cases
      case 1
      then obtain post where "c # cs = sub @ post" by (auto simp: prefix_def)
      then have "c # cs = [] @ sub @ post" by simp
      then show ?thesis by blast
    next
      case 2
      with Cons.IH obtain pre post where "cs = pre @ sub @ post" by blast
      then have "c # cs = (c # pre) @ sub @ post" by simp
      then show ?thesis by blast
    qed
  next
    assume "\<exists>pre post. c # cs = pre @ sub @ post"
    then obtain pre post where eq: "c # cs = pre @ sub @ post" by blast
    show "py_in sub (c # cs)"
    proof (cases pre)
      case Nil
      with eq have "prefix sub (c # cs)" by (simp add: prefix_def)
      then show ?thesis by simp
    next
      case (Cons a pre')
      with eq have "cs = pre' @ sub @ post" by simp
      with Cons.IH have "py_in sub cs" by blast
      then show ?thesis by simp
    qed
  qed
qed

lemma fold_update_nonempty:
  "d \<noteq> [] \<or> ys \<noteq> [] \<Longrightarrow> fold (\<lambda>(t, q) d. AList.update t q d) ys d \<noteq> []"
  by (induction ys arbitrary: d) (auto simp: split_def)

lemma dict_of_Nil_iff: "dict_of xs = [] \<longleftrightarrow> xs = []"
  using fold_update_nonempty [of "[]" xs] by (auto simp: dict_of_def)

lemma send_eq:
  "send w m u p s =
     (Inr (reply w (trace s) (prepare_request w s m u p)),
      s\<lparr>trace := trace s @ [Http (prepare_request w s m u p)]\<rparr>)"
  by (simp add: send_def Let_def)

lemma prepare_request_fields [simp]:
  "http_method (prepare_request w s m u p) = m"
  "url (prepare_request w s m u p) = u"
  "req_json (prepare_request w s m u p) = p"
  by (simp_all add: prepare_request_def)

lemma prepare_request_frame [simp]:
  "prepare_request w (s\<lparr>trace := tr\<rparr>) = prepare_request w s"
  "prepare_request w (s\<lparr>stdout := ls\<rparr>) = prepare_request w s"
  "prepare_request w (s\<lparr>formation_cache := c\<rparr>) = prepare_request w s"
  by (simp_all add: prepare_request_def fun_eq_iff split: option.splits)

lemma prepare_request_eq_iff [simp]:
  "prepare_request w s m u p = prepare_request w s m' u' p' \<longleftrightarrow> m = m' \<and> u = u' \<and> p = p'"
  by (auto simp: prepare_request_def)

subsection \<open>Fields that stay\<close>

lemma unchanged_refl [simp]: "unchanged s s"
  by (simp add: unchanged_def)

lemma unchanged_trans: "unchanged s s' \<Longrightarrow> unchanged s' s'' \<Longrightarrow> unchanged s s''"
  by (simp add: unchanged_def)

lemma unchanged_requests:
  "unchanged s s' \<Longrightarrow> patch_app_request w s' = patch_app_request w s"
  "unchanged s s' \<Longrightarrow> patch_formation_request w s' = patch_formation_request w s"
  "unchanged s s' \<Longrightarrow> get_formation_request w s' = get_formation_request w s"
  "unchanged s s' \<Longrightarrow> upgrade_cmd s' = upgrade_cmd s"
  "unchanged s s' \<Longrightarrow> current_cmd s' = current_cmd s"
  by (simp_all add: unchanged_def patch_app_request_def patch_formation_request_def
      get_formation_request_def prepare_request_def app_url_def formation_url_def
      upgrade_cmd_def current_cmd_def fun_eq_iff split: option.splits)

lemma banner_fields [simp]:
  "trace (banner s) = trace s" "formation_cache (banner s) = formation_cache s"
  "app_name (banner s) = app_name s" "ini_file (banner s) = ini_file s"
  "app_section (banner s) = app_section s" "session_headers (banner s) = session_headers s"
  "current_cmd (banner s) = current_cmd s" "unchanged s (banner s)"
  by (simp_all add: banner_def current_cmd_def unchanged_def)

lemma request_frame [simp]:
  "patch_app_request w (s\<lparr>trace := tr\<rparr>) = patch_app_request w s"
  "patch_app_request w (s\<lparr>stdout := ls\<rparr>) = patch_app_request w s"
  "patch_app_request w (s\<lparr>formation_cache := c\<rparr>) = patch_app_request w s"
  "patch_formation_request w (s\<lparr>trace := tr\<rparr>) = patch_formation_request w s"
  "patch_formation_request w (s\<lparr>stdout := ls\<rparr>) = patch_formation_request w s"
  "patch_formation_request w (s\<lparr>formation_cache := c\<rparr>) = patch_formation_request w s"
  "get_formation_request w (s\<lparr>trace := tr\<rparr>) = get_formation_request w s"
  "get_formation_request w (s\<lparr>stdout := ls\<rparr>) = get_formation_request w s"
  "get_formation_request w (s\<lparr>formation_cache := c\<rparr>) = get_formation_request w s"
  by (simp_all add: patch_app_request_def patch_formation_request_def
      get_formation_request_def app_url_def formation_url_def fun_eq_iff)

lemma cmd_frame [simp]:
  "upgrade_cmd (s\<lparr>trace := tr\<rparr>) = upgrade_cmd s"
  "upgrade_cmd (s\<lparr>stdout := ls\<rparr>) = upgrade_cmd s"
  "upgrade_cmd (s\<lparr>formation_cache := c\<rparr>) = upgrade_cmd s"
  "current_cmd (s\<lparr>trace := tr\<rparr>) = current_cmd s"
  "current_cmd (s\<lparr>stdout := ls\<rparr>) = current_cmd s"
  "current_cmd (s\<lparr>formation_cache := c\<rparr>) = current_cmd s"
  by (simp_all add: upgrade_cmd_def current_cmd_def)

subsection \<open>The external command\<close>

lemma shell_ok:
  "exec w (trace s) cmd = (0, outp) \<Longrightarrow>
   shell w cmd s = (Inr outp, s\<lparr>trace := trace s @ [Exec cmd]\<rparr>)"
  by (simp add: shell_def)

lemma shell_fail:
  "exec w (trace s) cmd = (rc, outp) \<Longrightarrow> rc \<noteq> 0 \<Longrightarrow>
   shell w cmd s = (Inl (CalledProcessError rc cmd), s\<lparr>trace := trace s @ [Exec cmd]\<rparr>)"
  by (simp add: shell_def)

lemma needs_migrate_ok:
  "exec w (trace s) (current_cmd s) = (0, outp) \<Longrightarrow>
   needs_migrate w s =
     (Inr (\<not> py_in ''head'' outp),
      s\<lparr>trace := trace s @ [Exec (current_cmd s)], stdout := stdout s @ [Line outp]\<rparr>)"
  by (simp add: needs_migrate_def and_then_def shell_ok print_def return_def)

lemma needs_migrate_fail:
  "exec w (trace s) (current_cmd s) = (rc, outp) \<Longrightarrow> rc \<noteq> 0 \<Longrightarrow>
   needs_migrate w s =
     (Inl (CalledProcessError rc (current_cmd s)),
      s\<lparr>trace := trace s @ [Exec (current_cmd s)]\<rparr>)"
  by (simp add: needs_migrate_def and_then_def shell_fail)

lemma alembic_ok:
  "exec w (trace s) (upgrade_cmd s) = (0, outp) \<Longrightarrow>
   alembic w s = (Inr outp, s\<lparr>trace := trace s @ [Exec (upgrade_cmd s)]\<rparr>)"
  by (simp add: alembic_def shell_ok)

lemma alembic_fail:
  "exec w (trace s) (upgrade_cmd s) = (rc, outp) \<Longrightarrow> rc \<noteq> 0 \<Longrightarrow>
   alembic w s =
     (Inl (CalledProcessError rc (upgrade_cmd s)), s\<lparr>trace := trace s @ [Exec (upgrade_cmd s)]\<rparr>)"
  by (simp add: alembic_def shell_fail)

subsection \<open>Response validation and the API operations\<close>

lemma parse_response_200: "status_code res = 200 \<Longrightarrow> parse_response res s = (Inr True, s)"
  by (simp add: parse_response_def and_then_def return_def lift_def raise_for_status_def)

lemma parse_response_error:
  "400 \<le> status_code res \<Longrightarrow> status_code res < 600 \<Longrightarrow>
   parse_response res s =
     (case content res of
        None \<Rightarrow> (Inl JSONDecodeError, s)
      | Some j \<Rightarrow> (Inl (HTTPError (status_code res)), s\<lparr>stdout := stdout s @ [Repr j]\<rparr>))"
  by (simp add: parse_response_def and_then_def return_def lift_def raise_for_status_def
      json_def print_def split: option.splits)

lemma parse_response_other:
  "status_code res \<noteq> 200 \<Longrightarrow> \<not> (400 \<le> status_code res \<and> status_code res < 600) \<Longrightarrow>
   parse_response res s =
     (case content res of
        None \<Rightarrow> (Inl JSONDecodeError, s)
      | Some j \<Rightarrow> (Inr True, s\<lparr>stdout := stdout s @ [Repr j]\<rparr>))"
  by (simp add: parse_response_def and_then_def return_def lift_def raise_for_status_def
      json_def print_def split: option.splits)

lemma parse_response_effect:
  "parse_response res s = (r, s') \<Longrightarrow>
   trace s' = trace s \<and> formation_cache s' = formation_cache s \<and> unchanged s s'"
  by (auto simp: parse_response_def and_then_def lift_def return_def print_def unchanged_def
      split: if_splits sum.splits prod.splits)

lemma set_maintenance_ok:
  "status_code (reply w (trace s) (patch_app_request w s state)) = 200 \<Longrightarrow>
   set_maintenance w state s =
     (Inr (), s\<lparr>trace := trace s @ [Http (patch_app_request w s state)],
                stdout := stdout s @ [maintenance_line state]\<rparr>)"
  by (simp add: set_maintenance_def and_then_def send_eq patch_app_request_def
      parse_response_200 print_def maintenance_line_def)

lemma formation_cached:
  "formation_cache s = Some f \<Longrightarrow> f \<noteq> [] \<Longrightarrow> formation w s = (Inr f, s)"
  by (simp add: formation_def)

lemma formation_fetch_ok:
  "formation_cache s = None \<or> formation_cache s = Some [] \<Longrightarrow>
   status_code (reply w (trace s) (get_formation_request w s)) = 200 \<Longrightarrow>
   content (reply w (trace s) (get_formation_request w s)) = Some (Array xs) \<Longrightarrow>
   formation w s =
     (Inr (dict_of xs),
      s\<lparr>formation_cache := Some (dict_of xs),
        trace := trace s @ [Http (get_formation_request w s)]\<rparr>)"
  by (auto simp add: formation_def and_then_def send_eq get_formation_request_def
      parse_response_200 lift_def json_def entries_def)

lemma scale_down_ok:
  "formation w s = (Inr f, s1) \<Longrightarrow>
   status_code (reply w (trace s1) (patch_formation_request w s1 (zeros f))) = 200 \<Longrightarrow>
   content (reply w (trace s1) (patch_formation_request w s1 (zeros f))) = Some (Array ys) \<Longrightarrow>
   scale_down w s =
     (Inr (), s1\<lparr>trace := trace s1 @ [Http (patch_formation_request w s1 (zeros f))],
                 stdout := stdout s1 @ Line ''Scaled down to:'' # quantity_lines ys\<rparr>)"
  by (simp add: scale_down_def and_then_def send_eq patch_formation_request_def zeros_def
      parse_response_200 lift_def json_def entries_def print_def print_each_def
      quantity_lines_def)

lemma scale_up_ok:
  "formation w s = (Inr f, s1) \<Longrightarrow>
   status_code (reply w (trace s1) (patch_formation_request w s1 f)) = 200 \<Longrightarrow>
   content (reply w (trace s1) (patch_formation_request w s1 f)) = Some (Array ys) \<Longrightarrow>
   scale_up w s =
     (Inr (), s1\<lparr>trace := trace s1 @ [Http (patch_formation_request w s1 f)],
                 stdout := stdout s1 @ Line ''Scaled up to:'' # quantity_lines ys\<rparr>)"
  by (simp add: scale_up_def and_then_def send_eq patch_formation_request_def
      parse_response_200 lift_def json_def entries_def print_def print_each_def
      quantity_lines_def)

subsection \<open>What each method adds to the trace\<close>

lemma needs_migrate_effect:
  "needs_migrate w s = (r, s') \<Longrightarrow>
   trace s' = trace s @ [Exec (current_cmd s)] \<and> formation_cache s' = formation_cache s \<and>
   unchanged s s'"
  by (auto simp: needs_migrate_def and_then_def shell_def Let_def print_def return_def
      unchanged_def split: if_splits sum.splits prod.splits)

lemma set_maintenance_effect:
  "set_maintenance w state s = (r, s') \<Longrightarrow>
   trace s' = trace s @ [Http (patch_app_request w s state)] \<and>
   formation_cache s' = formation_cache s \<and> unchanged s s'"
  by (auto simp: set_maintenance_def and_then_def send_eq patch_app_request_def print_def
      return_def unchanged_def
      dest!: parse_response_effect split: if_splits sum.splits prod.splits)

lemma formation_effect:
  "formation w s = (r, s') \<Longrightarrow>
   (trace s' = trace s \<or> trace s' = trace s @ [Http (get_formation_request w s)]) \<and>
   unchanged s s'"
  by (auto simp: formation_def and_then_def send_eq get_formation_request_def lift_def
      unchanged_def
      dest!: parse_response_effect split: if_splits sum.splits prod.splits)

lemma alembic_effect:
  "alembic w s = (r, s') \<Longrightarrow>
   trace s' = trace s @ [Exec (upgrade_cmd s)] \<and> formation_cache s' = formation_cache s \<and>
   unchanged s s'"
  by (auto simp: alembic_def shell_def Let_def unchanged_def split: if_splits prod.splits)

subsection \<open>The shape of \<^verbatim>\<open>migrate\<close>\<close>

lemma migrate_unfold:
  "migrate w s =
     (case needs_migrate w (banner s) of
        (Inl e, s1) \<Rightarrow> (Inl e, s1)
      | (Inr needed, s1) \<Rightarrow>
          if needed then
            and_then (set_maintenance w True) (\<lambda>_.
            and_then (scale_down w) (\<lambda>_.
            and_then (sleep 30) (\<lambda>_.
            and_then (alembic w) (\<lambda>output.
            and_then (print (Line output)) (\<lambda>_.
            and_then (scale_up w) (\<lambda>_.
            and_then (sleep 30) (\<lambda>_.
              set_maintenance w False))))))) s1
          else print (Line ''Database migration is not needed'') s1)"
  by (simp add: migrate_def and_then_def print_def banner_def split: prod.splits sum.splits)

text \<open>The exit status of the process is 0 exactly when \<^verbatim>\<open>migrate\<close> returns.\<close>

lemma main_exit_status:
  "fst (main w name ini sect) = 0 \<longleftrightarrow> fst (migrate w (Heroku_init w name ini sect)) = Inr ()"
  by (simp add: main_def split: prod.splits sum.splits)

subsection \<open>Running the program on a concrete world\<close>

lemma api_calls_append [simp]: "api_calls (tr @ tr') = api_calls tr @ api_calls tr'"
  by (simp add: api_calls_def)

lemma api_calls_simps [simp]:
  "api_calls [] = []" "api_calls (Http rq # tr) = rq # api_calls tr"
  "api_calls (Exec c # tr) = api_calls tr" "api_calls (Sleep n # tr) = api_calls tr"
  by (simp_all add: api_calls_def)

lemma client_plain:
  "default_headers w = requests_defaults \<Longrightarrow> environ w ''MIGRATE_API_SECRET_HEROKU'' = None \<Longrightarrow>
   client w = plain_client"
  by (simp add: client_def Heroku_init_def auth_key_def py_format_def requests_defaults_def
      plain_client_def lower_def lower_char_def)

lemma client_worlds:
  "client pending_world = plain_client" "client head_world = plain_client"
  "client broken_tool_world = plain_client" "client upgrade_fails_world = plain_client"
  "client (flaky_world k) = plain_client" "client created_world = plain_client"
  "client empty_world = plain_client" "client growing_world = plain_client"
  "client netrc_world = plain_client"
  by (rule client_plain;
      simp add: pending_world_def head_world_def broken_tool_world_def upgrade_fails_world_def
        flaky_world_def created_world_def empty_world_def growing_world_def netrc_world_def)+

lemma client_trace [simp]: "trace (client w) = []"
  by (simp add: client_def Heroku_init_def)

lemma world_fields:
  "reply pending_world = platform_ok" "exec pending_world = tool_pending"
  "netrc pending_world = Map.empty"
  "reply head_world = platform_ok" "netrc head_world = Map.empty"
  "reply broken_tool_world = platform_ok" "netrc broken_tool_world = Map.empty"
  "reply upgrade_fails_world = platform_ok" "netrc upgrade_fails_world = Map.empty"
  "exec upgrade_fails_world = (\<lambda>tr cmd. if tr = [] then (0, ''a1b2c3d4e5f6'') else (2, []))"
  "reply (flaky_world k) =
     (\<lambda>tr rq. if length (api_calls tr) = k then internal_error else platform_ok tr rq)"
  "exec (flaky_world k) = tool_pending" "netrc (flaky_world k) = Map.empty"
  "reply created_world = (\<lambda>tr rq. \<lparr>status_code = 201, content = Some (Object [])\<rparr>)"
  "exec created_world = tool_pending" "netrc created_world = Map.empty"
  "reply empty_world =
     (\<lambda>tr rq. case req_json rq of
        None \<Rightarrow> \<lparr>status_code = 200, content = Some (Array [])\<rparr>
      | Some p \<Rightarrow> platform_ok tr rq)"
  "exec empty_world = tool_pending" "netrc empty_world = Map.empty"
  "reply growing_world =
     (\<lambda>tr rq. case req_json rq of
        None \<Rightarrow> \<lparr>status_code = 200,
                 content = Some (Array (if Sleep 30 \<in> set tr then [(''web'', 1)] else []))\<rparr>
      | Some p \<Rightarrow> platform_ok tr rq)"
  "exec growing_world = tool_pending" "netrc growing_world = Map.empty"
  "reply netrc_world = platform_ok" "exec netrc_world = tool_pending"
  "netrc netrc_world = (\<lambda>u. Some ''ZGV2QGV4YW1wbGUuY29tOnMzY3JldA=='')"
  by (simp_all add: pending_world_def head_world_def broken_tool_world_def
      upgrade_fails_world_def flaky_world_def created_world_def empty_world_def
      growing_world_def netrc_world_def)

lemmas run_defs =
  migrate_def needs_migrate_def set_maintenance_def scale_down_def scale_up_def alembic_def
  formation_def shell_def send_def prepare_request_def parse_response_def
  raise_for_status_def json_def entries_def dict_of_def and_then_def return_def lift_def
  print_def print_each_def sleep_def current_cmd_def upgrade_cmd_def formation_url_def
  app_url_def api_endpoint_def client_worlds plain_client_def world_fields platform_ok_def
  tool_pending_def internal_error_def Let_def

lemmas request_defs =
  get_formation_request_def patch_formation_request_def patch_app_request_def

subsection \<open>What the scaling methods add to the trace\<close>

lemma and_then_send:
  "and_then (\<lambda>s. send w m (u s) p s) f s0 =
     f (reply w (trace s0) (prepare_request w s0 m (u s0) p))
       (s0\<lparr>trace := trace s0 @ [Http (prepare_request w s0 m (u s0) p)]\<rparr>)"
  by (simp add: and_then_def send_eq)

lemma after_patch_effect:
  "and_then (parse_response res) (\<lambda>_.
     and_then (print l) (\<lambda>_.
     and_then (lift (json res)) (\<lambda>j.
     and_then (lift (entries j)) (\<lambda>xs.
       print_each g xs)))) s = (r, s') \<Longrightarrow>
   trace s' = trace s \<and> formation_cache s' = formation_cache s \<and> unchanged s s'"
  by (auto simp: and_then_def print_def lift_def print_each_def unchanged_def
      dest!: parse_response_effect split: sum.splits prod.splits)

lemma formation_events:
  "formation w s = (r, s') \<Longrightarrow>
   \<exists>evs. trace s' = trace s @ evs \<and> (evs = [] \<or> evs = [Http (get_formation_request w s)])"
  using formation_effect [of w s r s'] by auto

lemma scale_effect:
  assumes "and_then (formation w) (\<lambda>f.
     and_then (\<lambda>s. send w PATCH (formation_url s) (Some (Updates (g f))) s) (\<lambda>res.
     and_then (parse_response res) (\<lambda>_.
     and_then (print l) (\<lambda>_.
     and_then (lift (json res)) (\<lambda>j.
     and_then (lift (entries j)) (\<lambda>xs.
       print_each h xs)))))) s = (r, s')"
  shows "unchanged s s' \<and>
    (\<exists>evs. trace s' = trace s @ evs \<and>
       (\<forall>e\<in>set evs. \<exists>rq. e = Http rq \<and> url rq = formation_url s) \<and>
       length (filter patches_formation evs) \<le> 1)"
proof -
  obtain rf sf where f: "formation w s = (rf, sf)"
    by (cases "formation w s")
  have uf: "unchanged s sf"
    using formation_effect [OF f] by simp
  obtain evs where evs: "trace sf = trace s @ evs"
    "evs = [] \<or> evs = [Http (get_formation_request w s)]"
    using formation_events [OF f] by blast
  have get_props: "\<forall>e\<in>set evs. \<exists>rq. e = Http rq \<and> url rq = formation_url s"
    "filter patches_formation evs = []"
    using evs(2) by (auto simp: get_formation_request_def patches_formation_def)
  show ?thesis
  proof (cases rf)
    case (Inl e)
    with assms f have "s' = sf"
      by (simp add: and_then_def)
    with uf evs(1) get_props show ?thesis by auto
  next
    case (Inr F)
    define sp where "sp = sf\<lparr>trace := trace sf @ [Http (patch_formation_request w sf (g F))]\<rparr>"
    from assms f Inr have "\<exists>res. and_then (parse_response res) (\<lambda>_.
        and_then (print l) (\<lambda>_.
        and_then (lift (json res)) (\<lambda>j.
        and_then (lift (entries j)) (\<lambda>xs.
          print_each h xs)))) sp = (r, s')"
      by (auto simp: and_then_def [of "formation w"] and_then_send sp_def
          patch_formation_request_def)
    then have "trace s' = trace sp \<and> unchanged sp s'"
      using after_patch_effect by blast
    moreover have "unchanged s sp"
      using uf by (simp add: sp_def unchanged_def)
    moreover have "patch_formation_request w sf = patch_formation_request w s"
      using unchanged_requests(2) [OF uf] .
    ultimately have "unchanged s s'"
      and "trace s' = trace s @ evs @ [Http (patch_formation_request w s (g F))]"
      using evs(1) by (auto simp: sp_def intro: unchanged_trans)
    moreover have "\<forall>e\<in>set (evs @ [Http (patch_formation_request w s (g F))]).
        \<exists>rq. e = Http rq \<and> url rq = formation_url s"
      using get_props(1) by (auto simp: patch_formation_request_def)
    moreover have "length (filter patches_formation
        (evs @ [Http (patch_formation_request w s (g F))])) \<le> 1"
      using get_props(2) by simp
    ultimately show ?thesis by blast
  qed
qed

lemma scale_down_effect:
  "scale_down w s = (r, s') \<Longrightarrow>
   unchanged s s' \<and>
   (\<exists>evs. trace s' = trace s @ evs \<and>
      (\<forall>e\<in>set evs. \<exists>rq. e = Http rq \<and> url rq = formation_url s) \<and>
      length (filter patches_formation evs) \<le> 1)"
  unfolding scale_down_def by (rule scale_effect)

lemma scale_up_effect:
  "scale_up w s = (r, s') \<Longrightarrow>
   unchanged s s' \<and>
   (\<exists>evs. trace s' = trace s @ evs \<and>
      (\<forall>e\<in>set evs. \<exists>rq. e = Http rq \<and> url rq = formation_url s) \<and>
      length (filter patches_formation evs) \<le> 1)"
  unfolding scale_up_def by (rule scale_effect)

lemma formation_url_unchanged: "unchanged s s' \<Longrightarrow> formation_url s' = formation_url s"
  by (simp add: unchanged_def formation_url_def)

lemma cmd_distinct: "current_cmd s \<noteq> upgrade_cmd s"
  by (simp add: current_cmd_def upgrade_cmd_def)

lemma formation_calls_only:
  assumes "\<forall>e\<in>set evs. \<exists>rq. e = Http rq \<and> url rq = formation_url s"
  shows "Http (patch_app_request w s b) \<notin> set evs" and "Exec c \<notin> set evs"
    and "Sleep n \<notin> set evs"
  using assms by (auto simp: patch_app_request_def app_url_def formation_url_def)

lemma not_patches_formation [simp]:
  "\<not> patches_formation (Exec c)" "\<not> patches_formation (Sleep n)"
  "\<not> patches_formation (Http (patch_app_request w s b))"
  "\<not> patches_formation (Http (get_formation_request w s))"
  "patches_formation (Http (patch_formation_request w s ups))"
  by (simp_all add: patches_formation_def patch_app_request_def get_formation_request_def
      patch_formation_request_def)

section \<open>The claims\<close>

subsection \<open>The decision to migrate\<close>

text \<open>
  Claim C7. The decision of \<^verbatim>\<open>needs_migrate\<close> is a function of the captured standard
  output of the status command and of nothing else: when the command exits with status
  0, the method returns true exactly when the text \<^verbatim>\<open>head\<close> does not occur in that output
  as a contiguous piece.
\<close>

theorem needs_migrate_decision:
  "exec w (trace s) (current_cmd s) = (0, outp) \<Longrightarrow>
   fst (needs_migrate w s) = Inr (\<not> (\<exists>pre post. outp = pre @ ''head'' @ post))"
  by (simp add: needs_migrate_ok py_in_iff)

theorem needs_migrate_decision_witness:
  "exec head_world (trace (client head_world)) (current_cmd (client head_world))
     = (0, ''a1b2c3d4e5f6 (head)'') \<and>
   fst (needs_migrate head_world (client head_world))
     = Inr (\<not> (\<exists>pre post. ''a1b2c3d4e5f6 (head)'' = pre @ ''head'' @ post))"
proof -
  have h: "exec head_world (trace (client head_world)) (current_cmd (client head_world))
             = (0, ''a1b2c3d4e5f6 (head)'')"
    by (simp add: head_world_def)
  from needs_migrate_decision [OF h] h show ?thesis by blast
qed

subsection \<open>Nothing to migrate\<close>

text \<open>
  Claim C3. When the status command exits with status 0 and its output contains
  \<^verbatim>\<open>head\<close>, \<^verbatim>\<open>migrate\<close> returns normally; the only call it adds to the trace is the
  status command itself, so no request is sent to the platform (no formation read, no
  maintenance toggle, no scale request), and the object is as before but for the lines
  printed.
\<close>

theorem up_to_date_no_api_call:
  "exec w (trace s) (current_cmd s) = (0, outp) \<Longrightarrow> py_in ''head'' outp \<Longrightarrow>
   migrate w s =
     (Inr (), s\<lparr>trace := trace s @ [Exec (current_cmd s)],
                stdout := stdout s @ [Line (app_name s), Line (app_section s), Line (ini_file s),
                  Line outp, Line ''Database migration is not needed'']\<rparr>)
   \<and> api_calls (trace (snd (migrate w s))) = api_calls (trace s)"
  by (simp add: migrate_unfold needs_migrate_ok print_def banner_def current_cmd_def
      api_calls_def)

theorem up_to_date_no_api_call_witness:
  "py_in ''head'' ''a1b2c3d4e5f6 (head)'' \<and>
   fst (migrate head_world (client head_world)) = Inr () \<and>
   trace (snd (migrate head_world (client head_world)))
     = [Exec ''alembic -c etc/production.ini -n app:main current''] \<and>
   api_calls (trace (snd (migrate head_world (client head_world)))) = []"
proof -
  have h: "exec head_world (trace (client head_world)) (current_cmd (client head_world))
             = (0, ''a1b2c3d4e5f6 (head)'')"
    by (simp add: head_world_def)
  have p: "py_in ''head'' ''a1b2c3d4e5f6 (head)''"
    by simp
  from up_to_date_no_api_call [OF h p] p show ?thesis
    by (simp add: client_def Heroku_init_def current_cmd_def api_calls_def)
qed

subsection \<open>The status check fails\<close>

text \<open>
  Claim C6. When the status command exits with a status other than 0, \<^verbatim>\<open>migrate\<close>
  raises \<^verbatim>\<open>CalledProcessError\<close>; the only call it has added to the trace is the status
  command, so no request was sent to the platform, and the object is as before but for
  the three lines printed at the start.
\<close>

theorem status_check_failure_aborts:
  "exec w (trace s) (current_cmd s) = (rc, outp) \<Longrightarrow> rc \<noteq> 0 \<Longrightarrow>
   migrate w s =
     (Inl (CalledProcessError rc (current_cmd s)),
      s\<lparr>trace := trace s @ [Exec (current_cmd s)],
        stdout := stdout s @ [Line (app_name s), Line (app_section s), Line (ini_file s)]\<rparr>)
   \<and> api_calls (trace (snd (migrate w s))) = api_calls (trace s)"
  by (simp add: migrate_unfold needs_migrate_fail banner_def current_cmd_def api_calls_def)

theorem status_check_failure_aborts_witness:
  "(1::int) \<noteq> 0 \<and>
   fst (migrate broken_tool_world (client broken_tool_world))
     = Inl (CalledProcessError 1 ''alembic -c etc/production.ini -n app:main current'') \<and>
   api_calls (trace (snd (migrate broken_tool_world (client broken_tool_world)))) = []"
proof -
  have h: "exec broken_tool_world (trace (client broken_tool_world))
             (current_cmd (client broken_tool_world)) = (1, [])"
    by (simp add: broken_tool_world_def)
  have n: "(1::int) \<noteq> 0" by simp
  from status_check_failure_aborts [OF h n] show ?thesis
    by (simp add: client_def Heroku_init_def current_cmd_def api_calls_def)
qed

subsection \<open>The full sequence\<close>

text \<open>
  Claim C1, as amended. Take an object whose formation has not been read yet, a status
  command that exits with 0 and whose output does not contain \<^verbatim>\<open>head\<close>, a platform
  that answers every request with 200 and every request to the formation endpoint with
  a JSON array, an upgrade command that exits with 0, and let the formation read answer
  a non-empty array \<open>xs\<close>. Then \<^verbatim>\<open>migrate\<close> returns normally and the calls it makes
  are exactly, in this order: the status command, PATCH maintenance=true, GET
  formation, PATCH formation with every type of \<open>dict_of xs\<close> at quantity 0, a delay
  of 30, the upgrade command, PATCH formation with \<open>dict_of xs\<close>, a delay of 30, PATCH
  maintenance=false. Maintenance is enabled before the formation is read: the read
  happens inside \<^verbatim>\<open>scale_down\<close>.
\<close>

theorem migrate_sequence:
  assumes status: "exec w (trace s) (current_cmd s) = (0, outp)"
    and pending: "\<not> py_in ''head'' outp"
    and fresh: "formation_cache s = None"
    and all200: "\<forall>tr rq. status_code (reply w tr rq) = 200"
    and arrays: "\<forall>tr rq. url rq = formation_url s \<longrightarrow>
                   (\<exists>ys. content (reply w tr rq) = Some (Array ys))"
    and captured:
      "content (reply w (trace s @ [Exec (current_cmd s), Http (patch_app_request w s True)])
         (get_formation_request w s)) = Some (Array xs)"
    and nonempty: "xs \<noteq> []"
    and upgrade: "\<forall>tr. fst (exec w tr (upgrade_cmd s)) = 0"
  shows "fst (migrate w s) = Inr () \<and>
         trace (snd (migrate w s)) = trace s @
           [Exec (current_cmd s),
            Http (patch_app_request w s True),
            Http (get_formation_request w s),
            Http (patch_formation_request w s (zeros (dict_of xs))),
            Sleep 30,
            Exec (upgrade_cmd s),
            Http (patch_formation_request w s (dict_of xs)),
            Sleep 30,
            Http (patch_app_request w s False)]"
proof -
  define F where "F = dict_of xs"
  have F_ne: "F \<noteq> []"
    using nonempty by (simp add: F_def dict_of_Nil_iff)
  have url_patch: "url (patch_formation_request w s ups) = formation_url s" for ups
    by (simp add: patch_formation_request_def)
  \<comment> \<open>the status check\<close>
  obtain s1 where step1: "needs_migrate w (banner s) = (Inr True, s1)"
    using needs_migrate_ok [of w "banner s" outp] status pending by simp
  have t1: "trace s1 = trace s @ [Exec (current_cmd s)]"
    and c1: "formation_cache s1 = None" and u1: "unchanged s s1"
    using needs_migrate_effect [OF step1] fresh
    by (auto intro: unchanged_trans [OF banner_fields(8)])
  \<comment> \<open>maintenance on\<close>
  obtain s2 where step2: "set_maintenance w True s1 = (Inr (), s2)"
    using set_maintenance_ok [of w s1 True] all200 by simp
  have t2: "trace s2 = trace s @ [Exec (current_cmd s), Http (patch_app_request w s True)]"
    and c2: "formation_cache s2 = None" and u2: "unchanged s s2"
    using set_maintenance_effect [OF step2] t1 c1 u1 unchanged_requests(1) [OF u1]
    by (auto intro: unchanged_trans)
  \<comment> \<open>scale down, reading the formation first\<close>
  define s2' where
    "s2' = s2\<lparr>formation_cache := Some F, trace := trace s2 @ [Http (get_formation_request w s2)]\<rparr>"
  have get: "formation w s2 = (Inr F, s2')"
    using formation_fetch_ok [of s2 w xs] c2 all200 captured t2 unchanged_requests(3) [OF u2]
    by (simp add: s2'_def F_def)
  have u2': "unchanged s s2'"
    using u2 by (simp add: s2'_def unchanged_def)
  have t2': "trace s2' = trace s @
      [Exec (current_cmd s), Http (patch_app_request w s True), Http (get_formation_request w s)]"
    using t2 unchanged_requests(3) [OF u2] by (simp add: s2'_def)
  have c2': "formation_cache s2' = Some F"
    by (simp add: s2'_def)
  obtain ys where ys:
    "content (reply w (trace s2') (patch_formation_request w s2' (zeros F))) = Some (Array ys)"
    using arrays url_patch unchanged_requests(2) [OF u2'] by metis
  define s3 where
    "s3 = s2'\<lparr>trace := trace s2' @ [Http (patch_formation_request w s2' (zeros F))],
              stdout := stdout s2' @ Line ''Scaled down to:'' # quantity_lines ys\<rparr>"
  have step3: "scale_down w s2 = (Inr (), s3)"
    using scale_down_ok [OF get _ ys] all200 by (simp add: s3_def)
  have u3: "unchanged s s3"
    using u2' by (simp add: s3_def unchanged_def)
  have t3: "trace s3 = trace s @
      [Exec (current_cmd s), Http (patch_app_request w s True), Http (get_formation_request w s),
       Http (patch_formation_request w s (zeros F))]"
    using t2' unchanged_requests(2) [OF u2'] by (simp add: s3_def)
  have c3: "formation_cache s3 = Some F"
    using c2' by (simp add: s3_def)
  \<comment> \<open>the delay and the upgrade\<close>
  define s4 where "s4 = s3\<lparr>trace := trace s3 @ [Sleep 30]\<rparr>"
  have step4: "sleep 30 s3 = (Inr (), s4)"
    by (simp add: sleep_def s4_def)
  have "fst (exec w (trace s4) (upgrade_cmd s4)) = 0"
    using upgrade unchanged_requests(4) [OF u3] by (simp add: s4_def)
  then obtain up where up: "exec w (trace s4) (upgrade_cmd s4) = (0, up)"
    by (cases "exec w (trace s4) (upgrade_cmd s4)") auto
  define s5 where "s5 = s4\<lparr>trace := trace s4 @ [Exec (upgrade_cmd s4)]\<rparr>"
  have step5: "alembic w s4 = (Inr up, s5)"
    using alembic_ok [OF up] by (simp add: s5_def)
  define s6 where "s6 = s5\<lparr>stdout := stdout s5 @ [Line up]\<rparr>"
  have step6: "print (Line up) s5 = (Inr (), s6)"
    by (simp add: print_def s6_def)
  have u6: "unchanged s s6"
    using u3 by (simp add: s6_def s5_def s4_def unchanged_def)
  have t6: "trace s6 = trace s3 @ [Sleep 30, Exec (upgrade_cmd s)]"
    using unchanged_requests(4) [OF u3] by (simp add: s6_def s5_def s4_def)
  have c6: "formation_cache s6 = Some F"
    using c3 by (simp add: s6_def s5_def s4_def)
  \<comment> \<open>scale up, from the cached formation\<close>
  have cached: "formation w s6 = (Inr F, s6)"
    using formation_cached [OF c6 F_ne] .
  obtain zs where zs:
    "content (reply w (trace s6) (patch_formation_request w s6 F)) = Some (Array zs)"
    using arrays url_patch unchanged_requests(2) [OF u6] by metis
  define s7 where
    "s7 = s6\<lparr>trace := trace s6 @ [Http (patch_formation_request w s6 F)],
             stdout := stdout s6 @ Line ''Scaled up to:'' # quantity_lines zs\<rparr>"
  have step7: "scale_up w s6 = (Inr (), s7)"
    using scale_up_ok [OF cached _ zs] all200 by (simp add: s7_def)
  \<comment> \<open>the delay and maintenance off\<close>
  define s8 where "s8 = s7\<lparr>trace := trace s7 @ [Sleep 30]\<rparr>"
  have step8: "sleep 30 s7 = (Inr (), s8)"
    by (simp add: sleep_def s8_def)
  have u8: "unchanged s s8"
    using u6 by (simp add: s8_def s7_def unchanged_def)
  have t8: "trace s8 = trace s6 @ [Http (patch_formation_request w s F), Sleep 30]"
    using unchanged_requests(2) [OF u6] by (simp add: s8_def s7_def)
  obtain s9 where step9: "set_maintenance w False s8 = (Inr (), s9)"
    using set_maintenance_ok [of w s8 False] all200 by simp
  have t9: "trace s9 = trace s8 @ [Http (patch_app_request w s False)]"
    using set_maintenance_effect [OF step9] unchanged_requests(1) [OF u8] by simp
  have run: "migrate w s = (Inr (), s9)"
    by (simp add: migrate_unfold step1 and_then_def step2 step3 step4 step5 step6 step7
        step8 step9)
  show ?thesis
    by (simp add: run t9 t8 t6 t3 F_def)
qed

theorem migrate_sequence_witness:
  "\<not> py_in ''head'' ''a1b2c3d4e5f6'' \<and>
   formation_cache (client pending_world) = None \<and>
   (\<forall>tr rq. status_code (reply pending_world tr rq) = 200) \<and>
   [(''web'', 2), (''worker'', 1)] \<noteq> ([] :: (string \<times> int) list) \<and>
   (\<forall>tr. fst (exec pending_world tr (upgrade_cmd (client pending_world))) = 0) \<and>
   fst (migrate pending_world (client pending_world)) = Inr () \<and>
   trace (snd (migrate pending_world (client pending_world))) =
     [Exec (current_cmd (client pending_world)),
      Http (patch_app_request pending_world (client pending_world) True),
      Http (get_formation_request pending_world (client pending_world)),
      Http (patch_formation_request pending_world (client pending_world) [(''web'', 0), (''worker'', 0)]),
      Sleep 30,
      Exec (upgrade_cmd (client pending_world)),
      Http (patch_formation_request pending_world (client pending_world) [(''web'', 2), (''worker'', 1)]),
      Sleep 30,
      Http (patch_app_request pending_world (client pending_world) False)]"
proof -
  let ?w = pending_world and ?s = "client pending_world"
  have status: "exec ?w (trace ?s) (current_cmd ?s) = (0, ''a1b2c3d4e5f6'')"
    by (simp add: pending_world_def tool_pending_def client_def Heroku_init_def)
  have pending: "\<not> py_in ''head'' ''a1b2c3d4e5f6''"
    by simp
  have fresh: "formation_cache ?s = None"
    by (simp add: client_def Heroku_init_def)
  have all200: "\<forall>tr rq. status_code (reply ?w tr rq) = 200"
    by (simp add: pending_world_def platform_ok_def split: option.splits payload.splits)
  have arrays: "\<forall>tr rq. url rq = formation_url ?s \<longrightarrow>
      (\<exists>ys. content (reply ?w tr rq) = Some (Array ys))"
    by (simp add: pending_world_def platform_ok_def client_def Heroku_init_def
        formation_url_def api_endpoint_def split: option.splits payload.splits)
  have captured:
    "content (reply ?w (trace ?s @ [Exec (current_cmd ?s), Http (patch_app_request ?w ?s True)])
       (get_formation_request ?w ?s)) = Some (Array [(''web'', 2), (''worker'', 1)])"
    by (simp add: pending_world_def platform_ok_def client_def Heroku_init_def
        get_formation_request_def formation_url_def api_endpoint_def)
  have nonempty: "[(''web'', 2), (''worker'', 1)] \<noteq> ([] :: (string \<times> int) list)"
    by simp
  have upgrade: "\<forall>tr. fst (exec ?w tr (upgrade_cmd ?s)) = 0"
    by (simp add: pending_world_def tool_pending_def)
  have tr0: "trace ?s = []"
    by (simp add: client_def Heroku_init_def)
  have d: "dict_of [(''web'', 2), (''worker'', 1)] = [(''web'', 2), (''worker'', 1)]"
    by (simp add: dict_of_def)
  from migrate_sequence [OF status pending fresh all200 arrays captured nonempty upgrade]
  have "fst (migrate ?w ?s) = Inr () \<and>
        trace (snd (migrate ?w ?s)) =
          [Exec (current_cmd ?s),
           Http (patch_app_request ?w ?s True),
           Http (get_formation_request ?w ?s),
           Http (patch_formation_request ?w ?s [(''web'', 0), (''worker'', 0)]),
           Sleep 30,
           Exec (upgrade_cmd ?s),
           Http (patch_formation_request ?w ?s [(''web'', 2), (''worker'', 1)]),
           Sleep 30,
           Http (patch_app_request ?w ?s False)]"
    by (simp add: tr0 d zeros_def)
  with pending fresh all200 nonempty upgrade show ?thesis
    by blast
qed

text \<open>
  Claim C1 as stated puts the formation read before the maintenance request. On the
  formation \<^verbatim>\<open>{web: 2, worker: 1}\<close>, with a pending migration and a platform that
  answers 200 throughout, the run succeeds and its calls are not the claimed sequence.
\<close>

theorem claimed_sequence_counterexample:
  "fst (migrate pending_world (client pending_world)) = Inr () \<and>
   trace (snd (migrate pending_world (client pending_world))) \<noteq>
     [Exec (current_cmd (client pending_world)),
      Http (get_formation_request pending_world (client pending_world)),
      Http (patch_app_request pending_world (client pending_world) True),
      Http (patch_formation_request pending_world (client pending_world) [(''web'', 0), (''worker'', 0)]),
      Sleep 30,
      Exec (upgrade_cmd (client pending_world)),
      Http (patch_formation_request pending_world (client pending_world) [(''web'', 2), (''worker'', 1)]),
      Sleep 30,
      Http (patch_app_request pending_world (client pending_world) False)]"
  by (simp add: run_defs request_defs)

subsection \<open>A failing request stops the run\<close>

text \<open>
  Claim C5. Let the status check report a pending migration. Whichever of the API
  operations of the sequence raises (maintenance on, scale-down with its formation
  read, scale-up, maintenance off), \<^verbatim>\<open>migrate\<close> raises the same exception and ends in
  the very state in which the operation raised: nothing runs after it. In particular,
  when \<^verbatim>\<open>scale_down\<close> raises, the calls of the run contain neither the upgrade command
  nor a maintenance=false request, and at most one scaling request (the scale-down
  itself); when \<^verbatim>\<open>scale_up\<close> raises, they contain no maintenance=false request.
\<close>

theorem api_failure_short_circuits:
  assumes needed: "needs_migrate w (banner s) = (Inr True, sa)"
  shows
    "(set_maintenance w True sa = (Inl e, sf) \<longrightarrow> migrate w s = (Inl e, sf)) \<and>
     (set_maintenance w True sa = (Inr (), sb) \<and> scale_down w sb = (Inl e, sf) \<longrightarrow>
        migrate w s = (Inl e, sf) \<and>
        (\<exists>new. trace sf = trace s @ new \<and>
           Exec (upgrade_cmd s) \<notin> set new \<and>
           Http (patch_app_request w s False) \<notin> set new \<and>
           length (filter patches_formation new) \<le> 1)) \<and>
     (set_maintenance w True sa = (Inr (), sb) \<and> scale_down w sb = (Inr (), sc) \<and>
      alembic w (snd (sleep 30 sc)) = (Inr printed, sd) \<and>
      scale_up w (snd (print (Line printed) sd)) = (Inl e, sf) \<longrightarrow>
        migrate w s = (Inl e, sf) \<and>
        (\<exists>new. trace sf = trace s @ new \<and> Http (patch_app_request w s False) \<notin> set new)) \<and>
     (set_maintenance w True sa = (Inr (), sb) \<and> scale_down w sb = (Inr (), sc) \<and>
      alembic w (snd (sleep 30 sc)) = (Inr printed, sd) \<and>
      scale_up w (snd (print (Line printed) sd)) = (Inr (), se) \<and>
      set_maintenance w False (snd (sleep 30 se)) = (Inl e, sf) \<longrightarrow>
        migrate w s = (Inl e, sf))"
proof -
  have t1: "trace sa = trace s @ [Exec (current_cmd s)]" and u1: "unchanged s sa"
    using needs_migrate_effect [OF needed] by (auto intro: unchanged_trans [OF banner_fields(8)])
  have on_fails: "migrate w s = (Inl e, sf)" if "set_maintenance w True sa = (Inl e, sf)"
    using that by (simp add: migrate_unfold needed and_then_def)
  have down_fails: "migrate w s = (Inl e, sf) \<and>
        (\<exists>new. trace sf = trace s @ new \<and>
           Exec (upgrade_cmd s) \<notin> set new \<and>
           Http (patch_app_request w s False) \<notin> set new \<and>
           length (filter patches_formation new) \<le> 1)"
    if on: "set_maintenance w True sa = (Inr (), sb)" and down: "scale_down w sb = (Inl e, sf)"
  proof -
    have run: "migrate w s = (Inl e, sf)"
      using on down by (simp add: migrate_unfold needed and_then_def)
    have t2: "trace sb = trace s @ [Exec (current_cmd s), Http (patch_app_request w s True)]"
      and u2: "unchanged s sb"
      using set_maintenance_effect [OF on] t1 u1 unchanged_requests(1) [OF u1]
      by (auto intro: unchanged_trans)
    obtain evs where evs: "trace sf = trace sb @ evs"
      "\<forall>e\<in>set evs. \<exists>rq. e = Http rq \<and> url rq = formation_url s"
      "length (filter patches_formation evs) \<le> 1"
      using scale_down_effect [OF down] formation_url_unchanged [OF u2] by auto
    let ?new = "[Exec (current_cmd s), Http (patch_app_request w s True)] @ evs"
    have "trace sf = trace s @ ?new"
      using evs(1) t2 by simp
    moreover have "Exec (upgrade_cmd s) \<notin> set ?new"
      using formation_calls_only(2) [OF evs(2)] cmd_distinct [of s] by auto
    moreover have "Http (patch_app_request w s False) \<notin> set ?new"
      using formation_calls_only(1) [OF evs(2)] by (auto simp: patch_app_request_def)
    moreover have "length (filter patches_formation ?new) \<le> 1"
      using evs(3) by simp
    ultimately show ?thesis
      using run by blast
  qed
  have up_fails: "migrate w s = (Inl e, sf) \<and>
        (\<exists>new. trace sf = trace s @ new \<and> Http (patch_app_request w s False) \<notin> set new)"
    if on: "set_maintenance w True sa = (Inr (), sb)" and down: "scale_down w sb = (Inr (), sc)"
      and tool: "alembic w (snd (sleep 30 sc)) = (Inr printed, sd)"
      and up: "scale_up w (snd (print (Line printed) sd)) = (Inl e, sf)"
  proof -
    have run: "migrate w s = (Inl e, sf)"
      using on down tool up by (simp add: migrate_unfold needed and_then_def sleep_def print_def)
    have t2: "trace sb = trace s @ [Exec (current_cmd s), Http (patch_app_request w s True)]"
      and u2: "unchanged s sb"
      using set_maintenance_effect [OF on] t1 u1 unchanged_requests(1) [OF u1]
      by (auto intro: unchanged_trans)
    obtain evs where evs: "trace sc = trace sb @ evs"
      "\<forall>e\<in>set evs. \<exists>rq. e = Http rq \<and> url rq = formation_url s"
      and u3: "unchanged s sc"
      using scale_down_effect [OF down] formation_url_unchanged [OF u2] u2
      by (auto intro: unchanged_trans)
    have t4: "trace sd = trace sc @ [Sleep 30, Exec (upgrade_cmd sc)]"
      and u4: "unchanged s sd"
      using alembic_effect [OF tool] u3
      by (auto simp: sleep_def unchanged_def upgrade_cmd_def)
    have u4': "unchanged s (snd (print (Line printed) sd))"
      using u4 by (simp add: print_def unchanged_def)
    obtain evs' where evs': "trace sf = trace sd @ evs'"
      "\<forall>e\<in>set evs'. \<exists>rq. e = Http rq \<and> url rq = formation_url s"
      using scale_up_effect [OF up] formation_url_unchanged [OF u4']
      by (auto simp: print_def)
    let ?new = "[Exec (current_cmd s), Http (patch_app_request w s True)] @ evs @
                [Sleep 30, Exec (upgrade_cmd sc)] @ evs'"
    have "trace sf = trace s @ ?new"
      using evs'(1) t4 evs(1) t2 by simp
    moreover have "Http (patch_app_request w s False) \<notin> set ?new"
      using formation_calls_only(1) [OF evs(2)] formation_calls_only(1) [OF evs'(2)]
      by (auto simp: patch_app_request_def)
    ultimately show ?thesis
      using run by blast
  qed
  have off_fails: "migrate w s = (Inl e, sf)"
    if "set_maintenance w True sa = (Inr (), sb)" and "scale_down w sb = (Inr (), sc)"
      and "alembic w (snd (sleep 30 sc)) = (Inr printed, sd)"
      and "scale_up w (snd (print (Line printed) sd)) = (Inr (), se)"
      and "set_maintenance w False (snd (sleep 30 se)) = (Inl e, sf)"
    using that by (simp add: migrate_unfold needed and_then_def sleep_def print_def)
  show ?thesis
    using on_fails down_fails up_fails off_fails by blast
qed

theorem api_failure_short_circuits_witness:
  "fst (needs_migrate (flaky_world 0) (banner (client (flaky_world 0)))) = Inr True \<and>
   fst (migrate (flaky_world 0) (client (flaky_world 0))) = Inl (HTTPError 500) \<and>
   fst (migrate (flaky_world 2) (client (flaky_world 2))) = Inl (HTTPError 500) \<and>
   Exec (upgrade_cmd (client (flaky_world 2)))
     \<notin> set (trace (snd (migrate (flaky_world 2) (client (flaky_world 2))))) \<and>
   Http (patch_app_request (flaky_world 2) (client (flaky_world 2)) False)
     \<notin> set (trace (snd (migrate (flaky_world 2) (client (flaky_world 2))))) \<and>
   length (filter patches_formation
     (trace (snd (migrate (flaky_world 2) (client (flaky_world 2)))))) \<le> 1 \<and>
   fst (migrate (flaky_world 3) (client (flaky_world 3))) = Inl (HTTPError 500) \<and>
   Http (patch_app_request (flaky_world 3) (client (flaky_world 3)) False)
     \<notin> set (trace (snd (migrate (flaky_world 3) (client (flaky_world 3))))) \<and>
   fst (migrate (flaky_world 4) (client (flaky_world 4))) = Inl (HTTPError 500)"
proof -
  have needed: "needs_migrate (flaky_world k) (banner (client (flaky_world k)))
      = (Inr True, snd (needs_migrate (flaky_world k) (banner (client (flaky_world k)))))" for k
    by (simp add: run_defs banner_def)
  \<comment> \<open>the first request, maintenance on, fails\<close>
  have a0: "fst (migrate (flaky_world 0) (client (flaky_world 0))) = Inl (HTTPError 500)"
  proof -
    let ?w = "flaky_world 0"
    define s1 where "s1 = snd (needs_migrate ?w (banner (client ?w)))"
    define sf where "sf = snd (set_maintenance ?w True s1)"
    have on: "set_maintenance ?w True s1 = (Inl (HTTPError 500), sf)"
      by (simp add: sf_def s1_def run_defs banner_def)
    from api_failure_short_circuits [OF needed [of 0], where e = "HTTPError 500" and sf = sf] on
    show ?thesis by (simp add: s1_def)
  qed
  \<comment> \<open>the third request, the scale-down, fails\<close>
  have a2: "fst (migrate (flaky_world 2) (client (flaky_world 2))) = Inl (HTTPError 500) \<and>
     Exec (upgrade_cmd (client (flaky_world 2)))
       \<notin> set (trace (snd (migrate (flaky_world 2) (client (flaky_world 2))))) \<and>
     Http (patch_app_request (flaky_world 2) (client (flaky_world 2)) False)
       \<notin> set (trace (snd (migrate (flaky_world 2) (client (flaky_world 2))))) \<and>
     length (filter patches_formation
       (trace (snd (migrate (flaky_world 2) (client (flaky_world 2)))))) \<le> 1"
  proof -
    let ?w = "flaky_world 2"
    define s1 where "s1 = snd (needs_migrate ?w (banner (client ?w)))"
    define s2 where "s2 = snd (set_maintenance ?w True s1)"
    define sf where "sf = snd (scale_down ?w s2)"
    have on: "set_maintenance ?w True s1 = (Inr (), s2)"
      by (simp add: s2_def s1_def run_defs banner_def)
    have down: "scale_down ?w s2 = (Inl (HTTPError 500), sf)"
      by (simp add: sf_def s2_def s1_def run_defs banner_def)
    from api_failure_short_circuits [OF needed [of 2], where e = "HTTPError 500" and sf = sf and sb = s2] on down
    show ?thesis by (auto simp: s1_def)
  qed
  \<comment> \<open>the fourth request, the scale-up, fails\<close>
  have a3: "fst (migrate (flaky_world 3) (client (flaky_world 3))) = Inl (HTTPError 500) \<and>
     Http (patch_app_request (flaky_world 3) (client (flaky_world 3)) False)
       \<notin> set (trace (snd (migrate (flaky_world 3) (client (flaky_world 3)))))"
  proof -
    let ?w = "flaky_world 3"
    define s1 where "s1 = snd (needs_migrate ?w (banner (client ?w)))"
    define s2 where "s2 = snd (set_maintenance ?w True s1)"
    define s3 where "s3 = snd (scale_down ?w s2)"
    define s4 where "s4 = snd (alembic ?w (snd (sleep 30 s3)))"
    define sf where "sf = snd (scale_up ?w (snd (print (Line ''Running upgrade'') s4)))"
    have on: "set_maintenance ?w True s1 = (Inr (), s2)"
      by (simp add: s2_def s1_def run_defs banner_def)
    have down: "scale_down ?w s2 = (Inr (), s3)"
      by (simp add: s3_def s2_def s1_def run_defs banner_def)
    have tool: "alembic ?w (snd (sleep 30 s3)) = (Inr ''Running upgrade'', s4)"
      by (simp add: s4_def s3_def s2_def s1_def run_defs banner_def)
    have up: "scale_up ?w (snd (print (Line ''Running upgrade'') s4)) = (Inl (HTTPError 500), sf)"
      by (simp add: sf_def s4_def s3_def s2_def s1_def run_defs banner_def)
    from api_failure_short_circuits [OF needed [of 3],
        where e = "HTTPError 500" and sf = sf and sb = s2 and sc = s3 and sd = s4
          and printed = "''Running upgrade''"] on down tool up
    show ?thesis by (auto simp: s1_def)
  qed
  \<comment> \<open>the fifth request, maintenance off, fails\<close>
  have a4: "fst (migrate (flaky_world 4) (client (flaky_world 4))) = Inl (HTTPError 500)"
  proof -
    let ?w = "flaky_world 4"
    define s1 where "s1 = snd (needs_migrate ?w (banner (client ?w)))"
    define s2 where "s2 = snd (set_maintenance ?w True s1)"
    define s3 where "s3 = snd (scale_down ?w s2)"
    define s4 where "s4 = snd (alembic ?w (snd (sleep 30 s3)))"
    define s5 where "s5 = snd (scale_up ?w (snd (print (Line ''Running upgrade'') s4)))"
    define sf where "sf = snd (set_maintenance ?w False (snd (sleep 30 s5)))"
    have on: "set_maintenance ?w True s1 = (Inr (), s2)"
      by (simp add: s2_def s1_def run_defs banner_def)
    have down: "scale_down ?w s2 = (Inr (), s3)"
      by (simp add: s3_def s2_def s1_def run_defs banner_def)
    have tool: "alembic ?w (snd (sleep 30 s3)) = (Inr ''Running upgrade'', s4)"
      by (simp add: s4_def s3_def s2_def s1_def run_defs banner_def)
    have up: "scale_up ?w (snd (print (Line ''Running upgrade'') s4)) = (Inr (), s5)"
      by (simp add: s5_def s4_def s3_def s2_def s1_def run_defs banner_def)
    have off: "set_maintenance ?w False (snd (sleep 30 s5)) = (Inl (HTTPError 500), sf)"
      by (simp add: sf_def s5_def s4_def s3_def s2_def s1_def run_defs banner_def)
    from api_failure_short_circuits [OF needed [of 4],
        where e = "HTTPError 500" and sf = sf and sb = s2 and sc = s3 and sd = s4
          and se = s5 and printed = "''Running upgrade''"] on down tool up off
    show ?thesis by (simp add: s1_def)
  qed
  have "fst (needs_migrate (flaky_world 0) (banner (client (flaky_world 0)))) = Inr True"
    using needed [of 0] by (metis fst_conv)
  with a0 a2 a3 a4 show ?thesis by blast
qed

subsection \<open>Response validation\<close>

text \<open>
  Claim C4, as amended. For every response whose status code is a client or server
  error (400 to 599), \<^verbatim>\<open>parse_response\<close> raises, and so does each API operation
  that receives it: the maintenance request, the formation read, and the scale request
  of \<^verbatim>\<open>scale_down\<close> and of \<^verbatim>\<open>scale_up\<close>. The exception is \<^verbatim>\<open>HTTPError\<close> with
  that status when the body is JSON, and the JSON decoding error raised while printing
  the body otherwise. Nothing distinguishes the 4xx from the 5xx statuses.
\<close>

theorem error_status_raises:
  assumes "400 \<le> status_code res" and "status_code res < 600"
  shows
    "fst (parse_response res s) = Inl (failure_of res) \<and>
     (reply w (trace s) (patch_app_request w s state) = res \<longrightarrow>
        fst (set_maintenance w state s) = Inl (failure_of res)) \<and>
     ((formation_cache s = None \<or> formation_cache s = Some []) \<and>
      reply w (trace s) (get_formation_request w s) = res \<longrightarrow>
        fst (formation w s) = Inl (failure_of res)) \<and>
     (formation w s = (Inr f, sa) \<and>
      reply w (trace sa) (patch_formation_request w sa (zeros f)) = res \<longrightarrow>
        fst (scale_down w s) = Inl (failure_of res)) \<and>
     (formation w s = (Inr f, sa) \<and>
      reply w (trace sa) (patch_formation_request w sa f) = res \<longrightarrow>
        fst (scale_up w s) = Inl (failure_of res))"
proof -
  have parse: "fst (parse_response res s') = Inl (failure_of res)" for s'
    using assms by (simp add: parse_response_error failure_of_def split: option.splits)
  then have parse': "\<exists>s''. parse_response res s' = (Inl (failure_of res), s'')" for s'
    by (metis prod.collapse)
  have "fst (set_maintenance w state s) = Inl (failure_of res)"
    if "reply w (trace s) (patch_app_request w s state) = res"
    using that parse' [of "s\<lparr>trace := trace s @ [Http (patch_app_request w s state)]\<rparr>"]
    by (auto simp: set_maintenance_def and_then_send patch_app_request_def and_then_def)
  moreover have "fst (formation w s) = Inl (failure_of res)"
    if "formation_cache s = None \<or> formation_cache s = Some []"
      and "reply w (trace s) (get_formation_request w s) = res"
    using that parse' [of "s\<lparr>trace := trace s @ [Http (get_formation_request w s)]\<rparr>"]
    by (auto simp: formation_def send_eq get_formation_request_def and_then_def)
  moreover have "fst (scale_down w s) = Inl (failure_of res)"
    if "formation w s = (Inr f, sa)"
      and "reply w (trace sa) (patch_formation_request w sa (zeros f)) = res"
    using that
      parse' [of "sa\<lparr>trace := trace sa @ [Http (patch_formation_request w sa (zeros f))]\<rparr>"]
    by (auto simp: scale_down_def and_then_def [of "formation w"] and_then_send
        patch_formation_request_def zeros_def and_then_def [of "parse_response res"])
  moreover have "fst (scale_up w s) = Inl (failure_of res)"
    if "formation w s = (Inr f, sa)"
      and "reply w (trace sa) (patch_formation_request w sa f) = res"
    using that
      parse' [of "sa\<lparr>trace := trace sa @ [Http (patch_formation_request w sa f)]\<rparr>"]
    by (auto simp: scale_up_def and_then_def [of "formation w"] and_then_send
        patch_formation_request_def and_then_def [of "parse_response res"])
  ultimately show ?thesis
    using parse by blast
qed

theorem error_status_raises_witness:
  "400 \<le> status_code internal_error \<and> status_code internal_error < 600 \<and>
   fst (parse_response internal_error (client (flaky_world 0))) = Inl (HTTPError 500) \<and>
   fst (set_maintenance (flaky_world 0) True (client (flaky_world 0))) = Inl (HTTPError 500) \<and>
   fst (formation (flaky_world 0) (client (flaky_world 0))) = Inl (HTTPError 500) \<and>
   fst (scale_down (flaky_world 1) (client (flaky_world 1))) = Inl (HTTPError 500) \<and>
   fst (scale_up (flaky_world 1) (client (flaky_world 1))) = Inl (HTTPError 500)"
proof -
  have lo: "400 \<le> status_code internal_error" and hi: "status_code internal_error < 600"
    by (simp_all add: internal_error_def)
  have err: "failure_of internal_error = HTTPError 500"
    by (simp add: failure_of_def internal_error_def)
  note raises = error_status_raises [OF lo hi, unfolded err]
  let ?c0 = "client (flaky_world 0)" and ?c1 = "client (flaky_world 1)"
  have "fst (parse_response internal_error ?c0) = Inl (HTTPError 500)"
    using raises by blast
  moreover have "fst (set_maintenance (flaky_world 0) True ?c0) = Inl (HTTPError 500)"
  proof -
    have "reply (flaky_world 0) (trace ?c0) (patch_app_request (flaky_world 0) ?c0 True) = internal_error"
      by (simp add: world_fields)
    with raises show ?thesis by blast
  qed
  moreover have "fst (formation (flaky_world 0) ?c0) = Inl (HTTPError 500)"
  proof -
    have "formation_cache ?c0 = None"
      by (simp add: client_def Heroku_init_def)
    moreover have
      "reply (flaky_world 0) (trace ?c0) (get_formation_request (flaky_world 0) ?c0) = internal_error"
      by (simp add: world_fields)
    ultimately show ?thesis using raises by blast
  qed
  moreover have "fst (scale_down (flaky_world 1) ?c1) = Inl (HTTPError 500) \<and>
    fst (scale_up (flaky_world 1) ?c1) = Inl (HTTPError 500)"
  proof -
    define sa where "sa = snd (formation (flaky_world 1) ?c1)"
    have read: "formation (flaky_world 1) ?c1 = (Inr [(''web'', 2), (''worker'', 1)], sa)"
      by (simp add: sa_def run_defs)
    have "reply (flaky_world 1) (trace sa)
        (patch_formation_request (flaky_world 1) sa (zeros [(''web'', 2), (''worker'', 1)])) = internal_error"
      and "reply (flaky_world 1) (trace sa)
        (patch_formation_request (flaky_world 1) sa [(''web'', 2), (''worker'', 1)]) = internal_error"
      by (simp_all add: sa_def run_defs)
    with read raises [where s = ?c1 and w = "flaky_world 1" and sa = sa
        and f = "[(''web'', 2), (''worker'', 1)]"]
    show ?thesis by blast
  qed
  ultimately show ?thesis
    using lo hi by blast
qed

text \<open>
  Claim C4 as stated fails on a status that is neither 200 nor an error: answered 201
  with a JSON body, the maintenance request returns normally, and so does a whole run.
\<close>

theorem created_status_counterexample:
  "status_code (reply created_world (trace (client created_world))
     (patch_app_request created_world (client created_world) True)) \<noteq> 200 \<and>
   fst (set_maintenance created_world True (client created_world)) = Inr () \<and>
   fst (migrate created_world (client created_world)) = Inr ()"
  by (simp add: run_defs request_defs)

subsection \<open>A failing command is fatal\<close>

text \<open>
  Claim C8. When the external command exits with a status other than 0, \<^verbatim>\<open>shell\<close>
  raises \<^verbatim>\<open>CalledProcessError\<close> with that status. Neither caller catches it: for the
  status query, \<^verbatim>\<open>needs_migrate\<close> raises it (it does not return true) and so does
  \<^verbatim>\<open>migrate\<close>; for the upgrade, \<^verbatim>\<open>alembic\<close> raises it, and so does \<^verbatim>\<open>migrate\<close> when
  the steps before the upgrade have succeeded.
\<close>

theorem nonzero_exit_propagates:
  assumes "rc \<noteq> 0"
  shows
    "(exec w (trace s) cmd = (rc, outp) \<longrightarrow>
        fst (shell w cmd s) = Inl (CalledProcessError rc cmd)) \<and>
     (exec w (trace s) (current_cmd s) = (rc, outp) \<longrightarrow>
        fst (needs_migrate w s) = Inl (CalledProcessError rc (current_cmd s)) \<and>
        fst (migrate w s) = Inl (CalledProcessError rc (current_cmd s))) \<and>
     (exec w (trace s) (upgrade_cmd s) = (rc, outp) \<longrightarrow>
        fst (alembic w s) = Inl (CalledProcessError rc (upgrade_cmd s))) \<and>
     (needs_migrate w (banner s) = (Inr True, sa) \<and>
      set_maintenance w True sa = (Inr (), sb) \<and>
      scale_down w sb = (Inr (), sc) \<and>
      exec w (trace sc @ [Sleep 30]) (upgrade_cmd s) = (rc, outp) \<longrightarrow>
        fst (migrate w s) = Inl (CalledProcessError rc (upgrade_cmd s)))"
proof -
  have "fst (shell w cmd s) = Inl (CalledProcessError rc cmd)"
    if "exec w (trace s) cmd = (rc, outp)"
    using that assms by (simp add: shell_fail)
  moreover have "fst (needs_migrate w s) = Inl (CalledProcessError rc (current_cmd s)) \<and>
      fst (migrate w s) = Inl (CalledProcessError rc (current_cmd s))"
    if "exec w (trace s) (current_cmd s) = (rc, outp)"
    using that assms by (simp add: needs_migrate_fail migrate_unfold)
  moreover have "fst (alembic w s) = Inl (CalledProcessError rc (upgrade_cmd s))"
    if "exec w (trace s) (upgrade_cmd s) = (rc, outp)"
    using that assms by (simp add: alembic_fail)
  moreover have "fst (migrate w s) = Inl (CalledProcessError rc (upgrade_cmd s))"
    if needed: "needs_migrate w (banner s) = (Inr True, sa)"
      and on: "set_maintenance w True sa = (Inr (), sb)"
      and down: "scale_down w sb = (Inr (), sc)"
      and tool: "exec w (trace sc @ [Sleep 30]) (upgrade_cmd s) = (rc, outp)"
  proof -
    have "unchanged s sa"
      using needs_migrate_effect [OF needed] by (auto intro: unchanged_trans [OF banner_fields(8)])
    moreover have "unchanged sa sb"
      using set_maintenance_effect [OF on] by simp
    moreover have "unchanged sb sc"
      using scale_down_effect [OF down] by simp
    ultimately have "unchanged s sc"
      by (blast intro: unchanged_trans)
    then have cmd: "upgrade_cmd sc = upgrade_cmd s"
      using unchanged_requests(4) by simp
    have "alembic w (sc\<lparr>trace := trace sc @ [Sleep 30]\<rparr>) =
        (Inl (CalledProcessError rc (upgrade_cmd s)),
         sc\<lparr>trace := trace sc @ [Sleep 30, Exec (upgrade_cmd s)]\<rparr>)"
      using alembic_fail [of w "sc\<lparr>trace := trace sc @ [Sleep 30]\<rparr>" rc outp] tool assms
      by (simp add: cmd)
    then show ?thesis
      using needed on down by (simp add: migrate_unfold and_then_def sleep_def)
  qed
  ultimately show ?thesis by blast
qed

theorem nonzero_exit_propagates_witness:
  "(1::int) \<noteq> 0 \<and> (2::int) \<noteq> 0 \<and>
   fst (shell broken_tool_world ''alembic --help'' (client broken_tool_world))
     = Inl (CalledProcessError 1 ''alembic --help'') \<and>
   fst (needs_migrate broken_tool_world (client broken_tool_world))
     = Inl (CalledProcessError 1 (current_cmd (client broken_tool_world))) \<and>
   fst (migrate broken_tool_world (client broken_tool_world))
     = Inl (CalledProcessError 1 (current_cmd (client broken_tool_world))) \<and>
   fst (alembic broken_tool_world (client broken_tool_world))
     = Inl (CalledProcessError 1 (upgrade_cmd (client broken_tool_world))) \<and>
   fst (migrate upgrade_fails_world (client upgrade_fails_world))
     = Inl (CalledProcessError 2 (upgrade_cmd (client upgrade_fails_world)))"
proof -
  have one: "(1::int) \<noteq> 0" and two: "(2::int) \<noteq> 0"
    by simp_all
  let ?b = broken_tool_world and ?u = upgrade_fails_world
  have broken: "exec ?b (trace (client ?b)) cmd = (1, [])" for cmd
    by (simp add: broken_tool_world_def)
  note first = nonzero_exit_propagates [OF one, where w = ?b and s = "client ?b" and outp = "[]"]
  have "fst (shell ?b ''alembic --help'' (client ?b))
      = Inl (CalledProcessError 1 ''alembic --help'')"
    using first [where cmd = "''alembic --help''"] broken by blast
  moreover have "fst (needs_migrate ?b (client ?b))
      = Inl (CalledProcessError 1 (current_cmd (client ?b))) \<and>
    fst (migrate ?b (client ?b)) = Inl (CalledProcessError 1 (current_cmd (client ?b))) \<and>
    fst (alembic ?b (client ?b)) = Inl (CalledProcessError 1 (upgrade_cmd (client ?b)))"
    using first broken by blast
  moreover have "fst (migrate ?u (client ?u))
      = Inl (CalledProcessError 2 (upgrade_cmd (client ?u)))"
  proof -
    define sa where "sa = snd (needs_migrate ?u (banner (client ?u)))"
    define sb where "sb = snd (set_maintenance ?u True sa)"
    define sc where "sc = snd (scale_down ?u sb)"
    have needed: "needs_migrate ?u (banner (client ?u)) = (Inr True, sa)"
      by (simp add: sa_def run_defs banner_def)
    have on: "set_maintenance ?u True sa = (Inr (), sb)"
      by (simp add: sb_def sa_def run_defs banner_def)
    have down: "scale_down ?u sb = (Inr (), sc)"
      by (simp add: sc_def sb_def sa_def run_defs banner_def)
    have tool: "exec ?u (trace sc @ [Sleep 30]) (upgrade_cmd (client ?u)) = (2, [])"
      by (simp add: world_fields)
    from nonzero_exit_propagates [OF two, where w = ?u and s = "client ?u" and outp = "[]"
        and sa = sa and sb = sb and sc = sc] needed on down tool
    show ?thesis by blast
  qed
  ultimately show ?thesis
    using one two by blast
qed

subsection \<open>An unset token\<close>

text \<open>Setting a header and reading it back, whatever the spelling of other headers.\<close>

lemma ci_lookup_update_same: "ci_lookup (ci_update k v hs) k = Some v"
  by (induction hs) auto

lemma ci_lookup_update_other:
  "lower k' \<noteq> lower k \<Longrightarrow> ci_lookup (ci_update k' v hs) k = ci_lookup hs k"
  by (induction hs) auto

text \<open>The names of the headers of a session, as the dictionary compares them.\<close>

lemma lower_names:
  "lower ''User-Agent'' = ''user-agent''"
  "lower ''Accept-Encoding'' = ''accept-encoding''"
  "lower ''Accept'' = ''accept''"
  "lower ''Connection'' = ''connection''"
  "lower ''Authorization'' = ''authorization''"
  "lower ''Content-Type'' = ''content-type''"
  by (simp_all add: lower_def lower_char_def)

lemma init_authorization:
  "ci_lookup (session_headers (Heroku_init w name ini sect)) ''Authorization'' =
     Some (''Bearer '' @ py_format (auth_key w))"
  by (simp add: Heroku_init_def ci_lookup_update_other ci_lookup_update_same lower_names)

text \<open>
  What a prepared request carries as \<^verbatim>\<open>Authorization\<close>: the header of the session when
  the library finds no netrc credentials for the URL, those credentials otherwise.
\<close>

lemma prepared_authorization:
  "ci_lookup (req_headers (prepare_request w s m u p)) ''Authorization'' =
     (case netrc w u of
        None \<Rightarrow> ci_lookup (session_headers s) ''Authorization''
      | Some credentials \<Rightarrow> Some (''Basic '' @ credentials))"
  by (simp add: prepare_request_def ci_lookup_update_same split: option.splits)

lemma sends_bearer_none_frame [simp]:
  "sends_bearer_none (s\<lparr>formation_cache := c\<rparr>) = sends_bearer_none s"
  "sends_bearer_none (s\<lparr>stdout := ls\<rparr>) = sends_bearer_none s"
  by (simp_all add: sends_bearer_none_def)

lemma keeps_and_then:
  assumes "\<And>s. sends_bearer_none s \<Longrightarrow> sends_bearer_none (snd (m s))"
    and "\<And>x s. sends_bearer_none s \<Longrightarrow> sends_bearer_none (snd (f x s))"
    and "sends_bearer_none s"
  shows "sends_bearer_none (snd (and_then m f s))"
proof (cases "m s")
  case (Pair r s')
  then have "sends_bearer_none s'"
    using assms(1) [OF assms(3)] by simp
  then show ?thesis
    using Pair assms(2) by (cases r) (simp_all add: and_then_def)
qed

lemma keeps_send:
  "no_netrc w \<Longrightarrow> sends_bearer_none s \<Longrightarrow> sends_bearer_none (snd (send w m u p s))"
  by (simp add: send_eq sends_bearer_none_def bearer_none_def prepared_authorization
      no_netrc_def)

lemma keeps_basic:
  "sends_bearer_none s \<Longrightarrow> sends_bearer_none (snd (print l s))"
  "sends_bearer_none s \<Longrightarrow> sends_bearer_none (snd (print_each g xs s))"
  "sends_bearer_none s \<Longrightarrow> sends_bearer_none (snd (sleep n s))"
  "sends_bearer_none s \<Longrightarrow> sends_bearer_none (snd (lift r s))"
  "sends_bearer_none s \<Longrightarrow> sends_bearer_none (snd (return x s))"
  "sends_bearer_none s \<Longrightarrow> sends_bearer_none (snd (shell w cmd s))"
  by (simp_all add: print_def print_each_def sleep_def lift_def return_def shell_def Let_def
      sends_bearer_none_def split: prod.splits)

lemma keeps_parse_response:
  "sends_bearer_none s \<Longrightarrow> sends_bearer_none (snd (parse_response res s))"
  unfolding parse_response_def
  by (intro keeps_and_then) (auto intro!: keeps_and_then keeps_basic)

lemma keeps_formation:
  "no_netrc w \<Longrightarrow> sends_bearer_none s \<Longrightarrow> sends_bearer_none (snd (formation w s))"
  unfolding formation_def
  by (auto intro!: keeps_and_then keeps_send keeps_parse_response keeps_basic)

lemma keeps_scale_down:
  "no_netrc w \<Longrightarrow> sends_bearer_none s \<Longrightarrow> sends_bearer_none (snd (scale_down w s))"
  unfolding scale_down_def
  by (intro keeps_and_then keeps_formation keeps_send keeps_parse_response keeps_basic)

lemma keeps_scale_up:
  "no_netrc w \<Longrightarrow> sends_bearer_none s \<Longrightarrow> sends_bearer_none (snd (scale_up w s))"
  unfolding scale_up_def
  by (intro keeps_and_then keeps_formation keeps_send keeps_parse_response keeps_basic)

lemma keeps_set_maintenance:
  "no_netrc w \<Longrightarrow> sends_bearer_none s \<Longrightarrow>
   sends_bearer_none (snd (set_maintenance w state s))"
  unfolding set_maintenance_def
  by (auto intro!: keeps_and_then keeps_send keeps_parse_response keeps_basic)

lemma keeps_needs_migrate:
  "sends_bearer_none s \<Longrightarrow> sends_bearer_none (snd (needs_migrate w s))"
  unfolding needs_migrate_def
  by (intro keeps_and_then keeps_basic)

lemma keeps_alembic:
  "sends_bearer_none s \<Longrightarrow> sends_bearer_none (snd (alembic w s))"
  unfolding alembic_def by (rule keeps_basic)

lemma keeps_migrate:
  "no_netrc w \<Longrightarrow> sends_bearer_none s \<Longrightarrow> sends_bearer_none (snd (migrate w s))"
  unfolding migrate_def
  by (auto intro!: keeps_and_then keeps_needs_migrate keeps_set_maintenance keeps_scale_down
      keeps_scale_up keeps_alembic keeps_basic)

text \<open>
  Claim C10 as stated says that every request carries \<^verbatim>\<open>Authorization: Bearer None\<close>
  once the token is not set. The session is built with no \<^verbatim>\<open>auth\<close> and the default
  \<^verbatim>\<open>trust_env\<close>, so the library looks for netrc credentials when it prepares a
  request and, when it finds some for the host, replaces the header with them. With
  the token not set and a netrc entry for the platform, the constructor returns an
  object whose session has the header \<^verbatim>\<open>Bearer None\<close>, the run of \<^verbatim>\<open>migrate\<close> succeeds,
  and each of its five requests carries the credentials of the netrc file: none carries
  \<^verbatim>\<open>Bearer None\<close>.
\<close>

theorem netrc_credentials_counterexample:
  "environ netrc_world ''MIGRATE_API_SECRET_HEROKU'' = None \<and>
   ci_lookup (session_headers (client netrc_world)) ''Authorization'' = Some ''Bearer None'' \<and>
   fst (migrate netrc_world (client netrc_world)) = Inr () \<and>
   map (\<lambda>rq. ci_lookup (req_headers rq) ''Authorization'')
     (api_calls (trace (snd (migrate netrc_world (client netrc_world))))) =
     [Some ''Basic ZGV2QGV4YW1wbGUuY29tOnMzY3JldA=='',
      Some ''Basic ZGV2QGV4YW1wbGUuY29tOnMzY3JldA=='',
      Some ''Basic ZGV2QGV4YW1wbGUuY29tOnMzY3JldA=='',
      Some ''Basic ZGV2QGV4YW1wbGUuY29tOnMzY3JldA=='',
      Some ''Basic ZGV2QGV4YW1wbGUuY29tOnMzY3JldA==''] \<and>
   \<not> list_all bearer_none
       (api_calls (trace (snd (migrate netrc_world (client netrc_world)))))"
proof -
  let ?run = "migrate netrc_world (client netrc_world)"
  have unset: "environ netrc_world ''MIGRATE_API_SECRET_HEROKU'' = None"
    by (simp add: netrc_world_def)
  have session: "ci_lookup (session_headers (client netrc_world)) ''Authorization''
      = Some ''Bearer None''"
    by (simp add: client_worlds plain_client_def lower_names)
  have run: "fst ?run = Inr ()"
    by (simp add: run_defs lower_names)
  have sent: "map (\<lambda>rq. ci_lookup (req_headers rq) ''Authorization'') (api_calls (trace (snd ?run))) =
     [Some ''Basic ZGV2QGV4YW1wbGUuY29tOnMzY3JldA=='',
      Some ''Basic ZGV2QGV4YW1wbGUuY29tOnMzY3JldA=='',
      Some ''Basic ZGV2QGV4YW1wbGUuY29tOnMzY3JldA=='',
      Some ''Basic ZGV2QGV4YW1wbGUuY29tOnMzY3JldA=='',
      Some ''Basic ZGV2QGV4YW1wbGUuY29tOnMzY3JldA=='']"
    by (simp add: run_defs lower_names)
  then have "\<not> list_all (\<lambda>rq. ci_lookup (req_headers rq) ''Authorization'' = Some ''Bearer None'')
       (api_calls (trace (snd ?run)))"
    by (cases "api_calls (trace (snd ?run))") auto
  then have "\<not> list_all bearer_none (api_calls (trace (snd ?run)))"
    by (simp add: bearer_none_def [abs_def])
  with unset session run sent show ?thesis
    by blast
qed

text \<open>
  Claim C10, as amended. When \<^verbatim>\<open>MIGRATE_API_SECRET_HEROKU\<close> is not set, the constructor
  returns an object (it has no failing branch) whose session has the header
  \<^verbatim>\<open>Authorization: Bearer None\<close>, whatever headers the library starts a session with.
  When, in addition, the library finds no netrc credentials for any URL, every request
  sent afterwards carries that header: the requests of a run of \<^verbatim>\<open>migrate\<close> on the new
  object do, and each method keeps the property that the session and all requests sent
  so far carry it.
\<close>

theorem unset_token_sends_bearer_none:
  assumes unset: "environ w ''MIGRATE_API_SECRET_HEROKU'' = None"
  shows
    "ci_lookup (session_headers (Heroku_init w name ini sect)) ''Authorization'' =
       Some ''Bearer None'' \<and>
     sends_bearer_none (Heroku_init w name ini sect) \<and>
     (no_netrc w \<longrightarrow>
        list_all bearer_none
          (api_calls (trace (snd (migrate w (Heroku_init w name ini sect))))) \<and>
        (\<forall>s. sends_bearer_none s \<longrightarrow>
           sends_bearer_none (snd (formation w s)) \<and>
           sends_bearer_none (snd (scale_down w s)) \<and>
           sends_bearer_none (snd (scale_up w s)) \<and>
           sends_bearer_none (snd (set_maintenance w state s)) \<and>
           sends_bearer_none (snd (migrate w s))))"
proof -
  have header: "ci_lookup (session_headers (Heroku_init w name ini sect)) ''Authorization'' =
       Some ''Bearer None''"
    using unset by (simp add: init_authorization auth_key_def py_format_def)
  then have init: "sends_bearer_none (Heroku_init w name ini sect)"
    by (simp add: sends_bearer_none_def) (simp add: Heroku_init_def)
  have rest: "list_all bearer_none
        (api_calls (trace (snd (migrate w (Heroku_init w name ini sect))))) \<and>
      (\<forall>s. sends_bearer_none s \<longrightarrow>
         sends_bearer_none (snd (formation w s)) \<and>
         sends_bearer_none (snd (scale_down w s)) \<and>
         sends_bearer_none (snd (scale_up w s)) \<and>
         sends_bearer_none (snd (set_maintenance w state s)) \<and>
         sends_bearer_none (snd (migrate w s)))"
    if plain: "no_netrc w"
  proof -
    have "list_all bearer_none
        (api_calls (trace (snd (migrate w (Heroku_init w name ini sect)))))"
      using keeps_migrate [OF plain init] by (simp add: sends_bearer_none_def)
    then show ?thesis
      using keeps_formation [OF plain] keeps_scale_down [OF plain] keeps_scale_up [OF plain]
        keeps_set_maintenance [OF plain] keeps_migrate [OF plain]
      by blast
  qed
  from header init rest show ?thesis
    by blast
qed

theorem unset_token_sends_bearer_none_witness:
  "environ pending_world ''MIGRATE_API_SECRET_HEROKU'' = None \<and>
   no_netrc pending_world \<and>
   ci_lookup (session_headers (client pending_world)) ''Authorization'' = Some ''Bearer None'' \<and>
   list_all bearer_none (api_calls (trace (snd (migrate pending_world (client pending_world))))) \<and>
   sends_bearer_none (snd (set_maintenance pending_world True (client pending_world)))"
proof -
  have unset: "environ pending_world ''MIGRATE_API_SECRET_HEROKU'' = None"
    by (simp add: pending_world_def)
  have plain: "no_netrc pending_world"
    by (simp add: no_netrc_def world_fields)
  note fact = unset_token_sends_bearer_none [OF unset,
      where name = "''my-app''" and ini = "''etc/production.ini''" and sect = "''app:main''"
        and state = True, folded client_def]
  with unset plain show ?thesis by blast
qed

subsection \<open>The formation cache and the empty formation\<close>

text \<open>
  A cached formation that is not empty is reused: \<^verbatim>\<open>scale_down\<close> sends one request,
  with every type at quantity 0, and leaves the cache as it is; \<^verbatim>\<open>scale_up\<close> sends
  one request, with the cached types and quantities, whatever the platform answers.
\<close>

lemma scale_down_keeps_cache:
  assumes "formation_cache s = Some F" and "F \<noteq> []"
  shows "formation_cache (snd (scale_down w s)) = Some F \<and>
         trace (snd (scale_down w s)) = trace s @ [Http (patch_formation_request w s (zeros F))]"
proof -
  have f: "formation w s = (Inr F, s)"
    using assms by (rule formation_cached)
  obtain r s' where run: "scale_down w s = (r, s')"
    by (cases "scale_down w s")
  define sp where "sp = s\<lparr>trace := trace s @ [Http (patch_formation_request w s (zeros F))]\<rparr>"
  from run f have "\<exists>res. and_then (parse_response res) (\<lambda>_.
      and_then (print (Line ''Scaled down to:'')) (\<lambda>_.
      and_then (lift (json res)) (\<lambda>j.
      and_then (lift (entries j)) (\<lambda>xs.
        print_each (\<lambda>(t, q). Type_quantity t q) xs)))) sp = (r, s')"
    by (auto simp: scale_down_def and_then_def [of "formation w"] and_then_send sp_def
        patch_formation_request_def zeros_def)
  then have "trace s' = trace sp \<and> formation_cache s' = formation_cache sp"
    using after_patch_effect by blast
  then show ?thesis
    using run assms(1) by (simp add: sp_def)
qed

lemma scale_up_sends_cached:
  assumes "formation_cache s = Some F" and "F \<noteq> []"
  shows "trace (snd (scale_up w s)) = trace s @ [Http (patch_formation_request w s F)]"
proof -
  have f: "formation w s = (Inr F, s)"
    using assms by (rule formation_cached)
  obtain r s' where run: "scale_up w s = (r, s')"
    by (cases "scale_up w s")
  define sp where "sp = s\<lparr>trace := trace s @ [Http (patch_formation_request w s F)]\<rparr>"
  from run f have "\<exists>res. and_then (parse_response res) (\<lambda>_.
      and_then (print (Line ''Scaled up to:'')) (\<lambda>_.
      and_then (lift (json res)) (\<lambda>j.
      and_then (lift (entries j)) (\<lambda>xs.
        print_each (\<lambda>(t, q). Type_quantity t q) xs)))) sp = (r, s')"
    by (auto simp: scale_up_def and_then_def [of "formation w"] and_then_send sp_def
        patch_formation_request_def)
  then have "trace s' = trace sp"
    using after_patch_effect by blast
  then show ?thesis
    using run by (simp add: sp_def)
qed

text \<open>
  Claim C9 at its failing input. The app has no process type: the formation read
  answers the empty array. The run succeeds, and it reads the formation twice, once in
  \<^verbatim>\<open>scale_down\<close> and once more in \<^verbatim>\<open>scale_up\<close>: the cached empty dictionary is
  false in \<^verbatim>\<open>if not self._formation\<close>, as \<^verbatim>\<open>None\<close> is.
\<close>

theorem empty_formation_read_twice:
  "fst (migrate empty_world (client empty_world)) = Inr () \<and>
   trace (snd (migrate empty_world (client empty_world))) =
     [Exec (current_cmd (client empty_world)),
      Http (patch_app_request empty_world (client empty_world) True),
      Http (get_formation_request empty_world (client empty_world)),
      Http (patch_formation_request empty_world (client empty_world) []),
      Sleep 30,
      Exec (upgrade_cmd (client empty_world)),
      Http (get_formation_request empty_world (client empty_world)),
      Http (patch_formation_request empty_world (client empty_world) []),
      Sleep 30,
      Http (patch_app_request empty_world (client empty_world) False)]"
  by (simp add: run_defs request_defs)

text \<open>
  Claim C2 at its failing input. The formation captured before the scale-down is
  empty, and a \<^verbatim>\<open>web\<close> process is added to the app while the migration runs. The
  scale-up reads the formation again and requests \<^verbatim>\<open>{web: 1}\<close>, which is not the
  captured formation.
\<close>

theorem empty_formation_not_restored:
  "fst (formation growing_world
         (snd (set_maintenance growing_world True
           (snd (needs_migrate growing_world (banner (client growing_world))))))) = Inr [] \<and>
   trace (snd (migrate growing_world (client growing_world))) =
     [Exec (current_cmd (client growing_world)),
      Http (patch_app_request growing_world (client growing_world) True),
      Http (get_formation_request growing_world (client growing_world)),
      Http (patch_formation_request growing_world (client growing_world) []),
      Sleep 30,
      Exec (upgrade_cmd (client growing_world)),
      Http (get_formation_request growing_world (client growing_world)),
      Http (patch_formation_request growing_world (client growing_world) [(''web'', 1)]),
      Sleep 30,
      Http (patch_app_request growing_world (client growing_world) False)]"
  by (simp add: run_defs request_defs banner_def)

end
